theory Spec2Isabelle
  imports Complex_Main
begin

section \<open>Shared data model\<close>

text \<open>
  Python exceptions are values. The exceptions raised by the libraries the services call
  (soundfile, librosa, demucs, torch) are named by their class. \<open>NonException\<close> stands for
  a \<open>BaseException\<close> that is not an \<open>Exception\<close> (KeyboardInterrupt, SystemExit):
  a clause \<open>except Exception\<close> does not catch it.
\<close>

datatype pyexc =
    ZeroDivisionError
  | ValueError
  | IndexError
  | LibraryError string
  | NonException string

fun is_Exception :: "pyexc \<Rightarrow> bool" where
  "is_Exception (NonException _) = False"
| "is_Exception _ = True"

text \<open>
  A two-dimensional numpy array: its shape and its rows. The shape is kept beside the
  rows, since an array of shape \<open>(2, 0)\<close> and one of shape \<open>(0, 2)\<close> have no element
  to tell them apart. Sample values are real numbers, as every finite float is; the
  arithmetic of this first model is exact.
\<close>

record ndarray2 =
  shape0 :: nat
  shape1 :: nat
  rows :: "real list list"

definition wf_ndarray2 :: "ndarray2 \<Rightarrow> bool" where
  "wf_ndarray2 a = (length (rows a) = shape0 a \<and> list_all (\<lambda>r. length r = shape1 a) (rows a))"

definition column :: "ndarray2 \<Rightarrow> nat \<Rightarrow> real list" where
  "column a j = map (\<lambda>r. r ! j) (rows a)"

text \<open>The attribute \<open>.T\<close>.\<close>

definition transpose2 :: "ndarray2 \<Rightarrow> ndarray2" where
  "transpose2 a = \<lparr>shape0 = shape1 a, shape1 = shape0 a,
                    rows = map (column a) [0..<shape1 a]\<rparr>"

section \<open>utils/audio\_io.py\<close>

text \<open>
  What \<open>librosa.load(..., mono=False)\<close> returns: a one-dimensional array for a mono
  file, a channel-first two-dimensional array otherwise.
\<close>

datatype librosa_array = Arr1 "real list" | Arr2 ndarray2

text \<open>
  The decoders and the resampler are library code: \<open>sf.read(path, always_2d=True)\<close>
  (shape (frames, channels)), \<open>librosa.load(path, sr=None, mono=False)\<close> and
  \<open>librosa.resample(y, orig_sr, target_sr)\<close>. Each returns its result or raises.
\<close>

record audio_env =
  sf_read :: "string \<Rightarrow> pyexc + (ndarray2 \<times> int)"
  librosa_load :: "string \<Rightarrow> pyexc + (librosa_array \<times> int)"
  librosa_resample :: "real list \<Rightarrow> int \<Rightarrow> int \<Rightarrow> pyexc + real list"

text \<open>
  Lines 48 to 52 of \<open>load_audio\<close>: a one-dimensional result of the secondary decoder
  becomes a single channel, a two-dimensional result is kept.
\<close>

definition channel_first :: "librosa_array \<Rightarrow> ndarray2" where
  "channel_first y =
     (case y of
        Arr1 v \<Rightarrow> \<lparr>shape0 = 1, shape1 = length v, rows = [v]\<rparr>
      | Arr2 a \<Rightarrow> a)"

text \<open>Lines 41 to 52 of \<open>load_audio\<close>: the try block and its handler.\<close>

definition decode_audio :: "audio_env \<Rightarrow> string \<Rightarrow> pyexc + (ndarray2 \<times> int)" where
  "decode_audio env path =
     (case sf_read env path of
        Inr (audio, sr) \<Rightarrow> Inr (transpose2 audio, sr)
      | Inl e \<Rightarrow>
          if is_Exception e then
            (case librosa_load env path of
               Inl e2 \<Rightarrow> Inl e2
             | Inr (y, sr) \<Rightarrow> Inr (channel_first y, sr))
          else Inl e)"

text \<open>\<open>np.mean(audio, axis=0, keepdims=True)\<close>, called only with more than one channel.\<close>

definition mean_axis0_keepdims :: "ndarray2 \<Rightarrow> ndarray2" where
  "mean_axis0_keepdims a =
     \<lparr>shape0 = 1, shape1 = shape1 a,
      rows = [map (\<lambda>j. sum_list (column a j) / real (shape0 a)) [0..<shape1 a]]\<rparr>"

text \<open>The loop of lines 61 and 62: the first channel whose resampling raises ends it.\<close>

fun resample_channels :: "audio_env \<Rightarrow> int \<Rightarrow> int \<Rightarrow> real list list \<Rightarrow> pyexc + real list list" where
  "resample_channels env sr target_sr [] = Inr []"
| "resample_channels env sr target_sr (ch # chs) =
     (case librosa_resample env ch sr target_sr of
        Inl e \<Rightarrow> Inl e
      | Inr r \<Rightarrow>
          (case resample_channels env sr target_sr chs of
             Inl e \<Rightarrow> Inl e
           | Inr rs \<Rightarrow> Inr (r # rs)))"

text \<open>
  \<open>np.stack(resampled, axis=0)\<close>: ValueError on an empty list and on arrays of
  different lengths.
\<close>

definition np_stack :: "real list list \<Rightarrow> pyexc + ndarray2" where
  "np_stack xs =
     (case xs of
        [] \<Rightarrow> Inl ValueError
      | x # _ \<Rightarrow>
          if list_all (\<lambda>y. length y = length x) xs
          then Inr \<lparr>shape0 = length xs, shape1 = length x, rows = xs\<rparr>
          else Inl ValueError)"

definition load_audio :: "audio_env \<Rightarrow> string \<Rightarrow> int \<Rightarrow> bool \<Rightarrow> pyexc + (ndarray2 \<times> int)" where
  "load_audio env path target_sr mono_flag =
     (case decode_audio env path of
        Inl e \<Rightarrow> Inl e
      | Inr (audio0, sr) \<Rightarrow>
          let audio = (if mono_flag \<and> shape0 audio0 > 1 then mean_axis0_keepdims audio0 else audio0)
          in if sr \<noteq> target_sr then
               (case resample_channels env sr target_sr (rows audio) of
                  Inl e \<Rightarrow> Inl e
                | Inr resampled \<Rightarrow>
                    (case np_stack resampled of
                       Inl e \<Rightarrow> Inl e
                     | Inr stacked \<Rightarrow> Inr (stacked, target_sr)))
             else Inr (audio, sr))"

text \<open>
  \<open>waveform_preview\<close>. \<open>max_points\<close> is a Python int. With \<open>samples > max_points\<close>:
  \<open>max_points = 0\<close> raises ZeroDivisionError at the floor division; a negative
  \<open>max_points\<close> and a non-empty input give a negative \<open>chunk_size\<close> and a negative
  \<open>actual_points\<close>, and \<open>reshape\<close> with two negative dimensions raises ValueError;
  a negative \<open>max_points\<close> and an empty input give \<open>chunk_size = 1\<close> and no points.
  Each chunk is reduced by its arithmetic mean.
\<close>

definition chunk_means :: "nat \<Rightarrow> nat \<Rightarrow> real list \<Rightarrow> real list" where
  "chunk_means chunk_size actual_points r =
     map (\<lambda>j. sum_list (take chunk_size (drop (j * chunk_size) r)) / real chunk_size)
       [0..<actual_points]"

definition waveform_preview :: "ndarray2 \<Rightarrow> int \<Rightarrow> pyexc + ndarray2" where
  "waveform_preview audio max_points =
     (let channels = shape0 audio; samples = shape1 audio in
      if int samples \<le> max_points then Inr audio
      else if max_points = 0 then Inl ZeroDivisionError
      else
        let q = int samples div max_points;
            chunk_size = (if q = 0 then 1 else q);
            actual_points = int samples div chunk_size
        in if chunk_size < 0 \<or> actual_points < 0 then Inl ValueError
           else Inr \<lparr>shape0 = channels, shape1 = nat actual_points,
                     rows = map (chunk_means (nat chunk_size) (nat actual_points)) (rows audio)\<rparr>)"

text \<open>The number of points of a preview: \<open>preview.shape[1]\<close>.\<close>

definition points :: "ndarray2 \<Rightarrow> nat" where
  "points preview = shape1 preview"


section \<open>Template correlation, shared by key and chord estimation\<close>

text \<open>\<open>np.roll(xs, k)\<close> for a one-dimensional array: a circular shift to the right.\<close>

definition np_roll :: "'a list \<Rightarrow> nat \<Rightarrow> 'a list" where
  "np_roll xs k =
     (let n = length xs in
      if n = 0 then xs else drop (n - k mod n) xs @ take (n - k mod n) xs)"

text \<open>
  \<open>np.dot\<close> of two one-dimensional arrays of the same length, in exact arithmetic. The
  callers check the lengths, where numpy raises ValueError. numpy's \<open>np.dot\<close> rounds;
  where the rounding decides a result (which of the scores is the greatest), the
  functions over the float operations below take \<open>np.dot\<close> as a parameter.
\<close>

definition np_dot :: "real list \<Rightarrow> real list \<Rightarrow> real" where
  "np_dot xs ys = sum_list (map2 (*) xs ys)"

text \<open>\<open>np.linalg.norm\<close> of a one-dimensional array: the Euclidean norm.\<close>

definition linalg_norm :: "real list \<Rightarrow> real" where
  "linalg_norm xs = sqrt (sum_list (map (\<lambda>x. x * x) xs))"

text \<open>
  A scan that keeps the first strictly greater score: the loop of Python's \<open>max\<close> with
  a key, and the two \<open>if score > best_score\<close> of chord detection.
\<close>

fun scan_best :: "('a \<Rightarrow> real) \<Rightarrow> 'a \<Rightarrow> 'a list \<Rightarrow> 'a" where
  "scan_best f best [] = best"
| "scan_best f best (x # xs) = scan_best f (if f x > f best then x else best) xs"

text \<open>Python's \<open>max(xs, key=f)\<close>: ValueError on an empty sequence.\<close>

definition py_max :: "('a \<Rightarrow> real) \<Rightarrow> 'a list \<Rightarrow> pyexc + 'a" where
  "py_max f xs = (case xs of [] \<Rightarrow> Inl ValueError | x # rest \<Rightarrow> Inr (scan_best f x rest))"

section \<open>key\_bpm\_service.py\<close>

definition KRUMHANSL_MAJOR :: "real list" where
  "KRUMHANSL_MAJOR =
     [6.35, 2.23, 3.48, 2.33, 4.38, 4.09, 2.52, 5.19, 2.39, 3.66, 2.29, 2.88]"

definition KRUMHANSL_MINOR :: "real list" where
  "KRUMHANSL_MINOR =
     [6.33, 2.68, 3.52, 5.38, 2.60, 3.53, 2.54, 4.75, 3.98, 2.69, 3.34, 3.17]"

definition KEY_NAMES :: "string list" where
  "KEY_NAMES = [''C'', ''C#'', ''D'', ''D#'', ''E'', ''F'', ''F#'', ''G'', ''G#'', ''A'', ''A#'', ''B'']"

definition profile_major :: "real list" where
  "profile_major = map (\<lambda>x. x / linalg_norm KRUMHANSL_MAJOR) KRUMHANSL_MAJOR"

definition profile_minor :: "real list" where
  "profile_minor = map (\<lambda>x. x / linalg_norm KRUMHANSL_MINOR) KRUMHANSL_MINOR"

text \<open>
  \<open>chroma.mean(axis=1)\<close>: the mean of each row. With no frame the mean of an empty row
  is NaN in numpy, which is no real number: None.
\<close>

definition mean_axis1 :: "ndarray2 \<Rightarrow> real list option" where
  "mean_axis1 a =
     (if shape1 a = 0 then None
      else Some (map (\<lambda>r. sum_list r / real (shape1 a)) (rows a)))"

definition normalize_chroma :: "real list \<Rightarrow> real list" where
  "normalize_chroma chroma_mean =
     map (\<lambda>x. x / (linalg_norm chroma_mean + 1 / 10 ^ 9)) chroma_mean"

text \<open>A candidate of key estimation: (mode, tonic, score).\<close>

type_synonym key_candidate = "string \<times> nat \<times> real"

definition cand_score :: "key_candidate \<Rightarrow> real" where
  "cand_score x = snd (snd x)"

text \<open>The loop of lines 45 to 50: for each tonic the major score, then the minor score.\<close>

definition key_scores :: "real list \<Rightarrow> key_candidate list" where
  "key_scores chroma_norm =
     concat (map (\<lambda>i. [(''major'', i, np_dot chroma_norm (np_roll profile_major i)),
                        (''minor'', i, np_dot chroma_norm (np_roll profile_minor i))])
               [0..<12])"

record key_estimate =
  key :: string
  confidence :: real

definition key_name :: "key_candidate \<Rightarrow> string" where
  "key_name x = (KEY_NAMES ! fst (snd x)) @ '' '' @ fst x"

text \<open>Line 55: \<open>max(0.0, min(1.0, (best + 1) / 2))\<close>.\<close>

definition key_conf :: "real \<Rightarrow> real" where
  "key_conf best = max 0 (min 1 ((best + 1) / 2))"

text \<open>
  \<open>_estimate_key\<close>. A chroma matrix that does not have 12 rows raises ValueError at the
  first \<open>np.dot\<close>. With 12 rows and no frame every score is NaN: no comparison with NaN
  holds, so \<open>max\<close> keeps the first candidate (major, tonic 0) and \<open>min(1.0, nan)\<close>
  keeps 1.0; that result is written out.
\<close>

definition estimate_key :: "ndarray2 \<Rightarrow> pyexc + key_estimate" where
  "estimate_key chroma =
     (if length (rows chroma) \<noteq> 12 then Inl ValueError
      else
        (case mean_axis1 chroma of
           None \<Rightarrow> Inr \<lparr>key = ''C major'', confidence = 1\<rparr>
         | Some chroma_mean \<Rightarrow>
             (case py_max cand_score (key_scores (normalize_chroma chroma_mean)) of
                Inl e \<Rightarrow> Inl e
              | Inr winner \<Rightarrow>
                  Inr \<lparr>key = key_name winner, confidence = key_conf (cand_score winner)\<rparr>)))"

section \<open>chords\_service.py\<close>

definition chord_names :: "string list" where
  "chord_names = [''C'', ''C#'', ''D'', ''D#'', ''E'', ''F'', ''F#'', ''G'', ''G#'', ''A'', ''A#'', ''B'']"

definition major_template :: "real list" where
  "major_template = [1, 0, 0, 0, 1, 0, 0, 1, 0, 0, 0, 0]"

definition minor_template :: "real list" where
  "minor_template = [1, 0, 0, 1, 0, 0, 0, 1, 0, 0, 0, 0]"

text \<open>
  The loop over the roots of lines 75 to 83, on the pair (best\_chord, best\_score).
\<close>

fun chord_scan :: "real list \<Rightarrow> nat list \<Rightarrow> string \<times> real \<Rightarrow> string \<times> real" where
  "chord_scan frame_chroma [] best = best"
| "chord_scan frame_chroma (root_pc # roots) best =
     (let maj_score = np_dot frame_chroma (np_roll major_template root_pc);
          min_score = np_dot frame_chroma (np_roll minor_template root_pc);
          best1 = (if maj_score > snd best then (chord_names ! root_pc, maj_score) else best);
          best2 = (if min_score > snd best1 then (chord_names ! root_pc @ ''m'', min_score) else best1)
      in chord_scan frame_chroma roots best2)"

record segment =
  seg_time :: real
  chord :: string
  seg_confidence :: real

text \<open>The body of the loop over the frames, lines 73 to 88.\<close>

definition frame_segment :: "real \<Rightarrow> real list \<Rightarrow> segment" where
  "frame_segment t frame_chroma =
     (let best = chord_scan frame_chroma [0..<12] (''N'', 0)
      in \<lparr>seg_time = t, chord = fst best, seg_confidence = min 1 (snd best / 3)\<rparr>)"

text \<open>The merge of lines 91 to 95, on the list \<open>merged\<close>.\<close>

fun merge_loop :: "segment list \<Rightarrow> segment list \<Rightarrow> segment list" where
  "merge_loop merged [] = merged"
| "merge_loop merged (seg # segs) =
     (if merged \<noteq> [] \<and> chord (last merged) = chord seg
      then merge_loop merged segs
      else merge_loop (merged @ [seg]) segs)"

text \<open>
  Lines 66 to 97 on the chroma matrix and the frame times. A frame whose length is not 12
  raises ValueError at \<open>np.dot\<close>, and a frame with no time raises IndexError at
  \<open>times[i]\<close>; both arise only when there is a frame.
\<close>

definition frame_segments :: "ndarray2 \<Rightarrow> real list \<Rightarrow> segment list" where
  "frame_segments chroma frame_times =
     map (\<lambda>i. frame_segment (frame_times ! i) (column chroma i)) [0..<shape1 chroma]"

definition chords_of_chroma :: "ndarray2 \<Rightarrow> real list \<Rightarrow> pyexc + segment list" where
  "chords_of_chroma chroma frame_times =
     (if shape1 chroma = 0 then Inr []
      else if length (rows chroma) \<noteq> 12 then Inl ValueError
      else if length frame_times < shape1 chroma then Inl IndexError
      else Inr (merge_loop [] (frame_segments chroma frame_times)))"

text \<open>
  \<open>librosa.feature.chroma_cqt\<close> and \<open>librosa.frames_to_time\<close> are library code.
\<close>

record chroma_env =
  chroma_cqt :: "real list \<Rightarrow> int \<Rightarrow> nat \<Rightarrow> pyexc + ndarray2"
  frames_to_time :: "nat \<Rightarrow> int \<Rightarrow> nat \<Rightarrow> real list"

definition detect_chords ::
  "audio_env \<Rightarrow> chroma_env \<Rightarrow> string \<Rightarrow> int \<Rightarrow> pyexc + segment list" where
  "detect_chords env cenv audio_path target_sr =
     (case load_audio env audio_path target_sr True of
        Inl e \<Rightarrow> Inl e
      | Inr (audio, sr) \<Rightarrow>
          (case rows audio of
             [] \<Rightarrow> Inl IndexError
           | mono_ch # _ \<Rightarrow>
               (case chroma_cqt cenv mono_ch sr 2048 of
                  Inl e \<Rightarrow> Inl e
                | Inr chroma \<Rightarrow>
                    chords_of_chroma chroma (frames_to_time cenv (shape1 chroma) sr 2048))))"

section \<open>demucs\_service.py\<close>

text \<open>
  A loaded Demucs model is a mutable object: \<open>model.to(device)\<close> and \<open>model.eval()\<close>
  change it in place. Objects live in a store, addressed by references; the cache holds
  references, so two names for one object see each other's changes.
\<close>

record model_obj =
  variant :: string
  device :: string
  training :: bool
  samplerate :: int
  sources :: "string list"

text \<open>
  The process state: the module's global \<open>_MODEL_CACHE\<close> (a dict from model name to
  model object), the object store, the next free reference, the log of the calls of
  \<open>get_model\<close>, and the log of the files written.
\<close>

record demucs_state =
  MODEL_CACHE :: "string \<rightharpoonup> nat"
  store :: "nat \<Rightarrow> model_obj"
  next_ref :: nat
  load_calls :: "string list"
  written :: "string list"

text \<open>
  Library and system code: \<open>demucs.pretrained.get_model\<close>, whether \<open>model.to(device)\<close>
  raises for a device, whether \<open>output_dir.mkdir\<close> raises, \<open>demucs.apply.apply_model\<close>
  (one array per source) and whether \<open>sf.write\<close> raises for a path.
\<close>

record demucs_env =
  get_model :: "string \<Rightarrow> pyexc + model_obj"
  to_device_error :: "string \<Rightarrow> pyexc option"
  mkdir_error :: "string \<Rightarrow> pyexc option"
  apply_model :: "model_obj \<Rightarrow> ndarray2 \<Rightarrow> string \<Rightarrow> pyexc + ndarray2 list"
  sf_write_error :: "string \<Rightarrow> pyexc option"

text \<open>\<open>_get_demucs_model\<close>: the key of the cache is the model name.\<close>

definition get_demucs_model ::
  "demucs_env \<Rightarrow> string \<Rightarrow> demucs_state \<Rightarrow> (pyexc + nat) \<times> demucs_state" where
  "get_demucs_model env model_name st =
     (case MODEL_CACHE st model_name of
        Some r \<Rightarrow> (Inr r, st)
      | None \<Rightarrow>
          (case get_model env model_name of
             Inl e \<Rightarrow> (Inl e, st\<lparr>load_calls := load_calls st @ [model_name]\<rparr>)
           | Inr obj \<Rightarrow>
               (Inr (next_ref st),
                st\<lparr>MODEL_CACHE := (MODEL_CACHE st)(model_name \<mapsto> next_ref st),
                   store := (store st)(next_ref st := obj),
                   next_ref := Suc (next_ref st),
                   load_calls := load_calls st @ [model_name]\<rparr>)))"

text \<open>
  The loop of lines 82 to 86: \<open>stems[0, i]\<close> raises IndexError when the model returned
  fewer arrays than it has sources; a failed write ends the loop.
\<close>

fun write_stems ::
  "demucs_env \<Rightarrow> string \<Rightarrow> string list \<Rightarrow> ndarray2 list \<Rightarrow> (string \<rightharpoonup> string) \<Rightarrow>
   demucs_state \<Rightarrow> (pyexc + (string \<rightharpoonup> string)) \<times> demucs_state" where
  "write_stems env output_dir [] stems stem_paths st = (Inr stem_paths, st)"
| "write_stems env output_dir (name # names) [] stem_paths st = (Inl IndexError, st)"
| "write_stems env output_dir (name # names) (stem_audio # stems) stem_paths st =
     (let out_path = output_dir @ ''/'' @ name @ ''.wav'' in
      case sf_write_error env out_path of
        Some e \<Rightarrow> (Inl e, st)
      | None \<Rightarrow>
          write_stems env output_dir names stems (stem_paths(name \<mapsto> out_path))
            (st\<lparr>written := written st @ [out_path]\<rparr>))"

definition separate_stems ::
  "demucs_env \<Rightarrow> audio_env \<Rightarrow> string \<Rightarrow> string \<Rightarrow> string \<Rightarrow> string \<Rightarrow> demucs_state \<Rightarrow>
   (pyexc + (string \<rightharpoonup> string)) \<times> demucs_state" where
  "separate_stems env aenv audio_path output_dir model_name dev st =
     (case mkdir_error env output_dir of
        Some e \<Rightarrow> (Inl e, st)
      | None \<Rightarrow>
          (case get_demucs_model env model_name st of
             (Inl e, st1) \<Rightarrow> (Inl e, st1)
           | (Inr r, st1) \<Rightarrow>
               (case to_device_error env dev of
                  Some e \<Rightarrow> (Inl e, st1)
                | None \<Rightarrow>
                    let st2 = st1\<lparr>store := (store st1)(r := (store st1 r)\<lparr>device := dev\<rparr>)\<rparr>;
                        st3 = st2\<lparr>store := (store st2)(r := (store st2 r)\<lparr>training := False\<rparr>)\<rparr>;
                        model = store st3 r
                    in (case load_audio aenv audio_path (samplerate model) False of
                          Inl e \<Rightarrow> (Inl e, st3)
                        | Inr (audio, sr) \<Rightarrow>
                            (case apply_model env model audio dev of
                               Inl e \<Rightarrow> (Inl e, st3)
                             | Inr stems \<Rightarrow>
                                 write_stems env output_dir (sources model) stems Map.empty st3)))))"

text \<open>The state of a fresh process: an empty cache, nothing loaded, nothing written.\<close>

definition initial_state :: "model_obj \<Rightarrow> demucs_state" where
  "initial_state filler =
     \<lparr>MODEL_CACHE = Map.empty, store = (\<lambda>_. filler), next_ref = 0,
      load_calls = [], written = []\<rparr>"

section \<open>Key and chord estimation over the float operations\<close>

text \<open>
  A finite float is a real number, and two floats compare as the reals they are; but
  numpy's and Python's operations on floats round, so a sum of products computed by
  \<open>np.dot\<close> is not the exact sum. Which candidate has the greatest score, and which
  scores are equal, depends on what these operations return. Here they are parameters:
  \<open>np.dot\<close> of two one-dimensional arrays, \<open>np.linalg.norm\<close>, the mean of one row
  (for \<open>chroma.mean(axis=1)\<close>), division and addition. The functions below are
  \<open>_estimate_key\<close> and \<open>detect_chords\<close> once more, line by line as above, over these
  parameters; \<open>exact_ops\<close> is exact arithmetic. NaN and infinities are not values here,
  and the constants of the source are written as their decimals.
\<close>

record float_ops =
  fl_dot :: "real list \<Rightarrow> real list \<Rightarrow> real"
  fl_norm :: "real list \<Rightarrow> real"
  fl_mean :: "real list \<Rightarrow> real"
  fl_div :: "real \<Rightarrow> real \<Rightarrow> real"
  fl_add :: "real \<Rightarrow> real \<Rightarrow> real"

definition exact_ops :: float_ops where
  "exact_ops =
     \<lparr>fl_dot = np_dot, fl_norm = linalg_norm,
      fl_mean = (\<lambda>r. sum_list r / real (length r)),
      fl_div = (\<lambda>x y. x / y), fl_add = (\<lambda>x y. x + y)\<rparr>"

definition profile_major_with :: "float_ops \<Rightarrow> real list" where
  "profile_major_with ops =
     map (\<lambda>x. fl_div ops x (fl_norm ops KRUMHANSL_MAJOR)) KRUMHANSL_MAJOR"

definition profile_minor_with :: "float_ops \<Rightarrow> real list" where
  "profile_minor_with ops =
     map (\<lambda>x. fl_div ops x (fl_norm ops KRUMHANSL_MINOR)) KRUMHANSL_MINOR"

definition mean_axis1_with :: "float_ops \<Rightarrow> ndarray2 \<Rightarrow> real list option" where
  "mean_axis1_with ops a =
     (if shape1 a = 0 then None else Some (map (fl_mean ops) (rows a)))"

definition normalize_chroma_with :: "float_ops \<Rightarrow> real list \<Rightarrow> real list" where
  "normalize_chroma_with ops chroma_mean =
     map (\<lambda>x. fl_div ops x (fl_add ops (fl_norm ops chroma_mean) (1 / 10 ^ 9))) chroma_mean"

definition key_scores_with :: "float_ops \<Rightarrow> real list \<Rightarrow> key_candidate list" where
  "key_scores_with ops chroma_norm =
     concat (map (\<lambda>i. [(''major'', i, fl_dot ops chroma_norm (np_roll (profile_major_with ops) i)),
                        (''minor'', i, fl_dot ops chroma_norm (np_roll (profile_minor_with ops) i))])
               [0..<12])"

definition key_conf_with :: "float_ops \<Rightarrow> real \<Rightarrow> real" where
  "key_conf_with ops best = max 0 (min 1 (fl_div ops (fl_add ops best 1) 2))"

definition estimate_key_with :: "float_ops \<Rightarrow> ndarray2 \<Rightarrow> pyexc + key_estimate" where
  "estimate_key_with ops chroma =
     (if length (rows chroma) \<noteq> 12 then Inl ValueError
      else
        (case mean_axis1_with ops chroma of
           None \<Rightarrow> Inr \<lparr>key = ''C major'', confidence = 1\<rparr>
         | Some chroma_mean \<Rightarrow>
             (case py_max cand_score (key_scores_with ops (normalize_chroma_with ops chroma_mean)) of
                Inl e \<Rightarrow> Inl e
              | Inr winner \<Rightarrow>
                  Inr \<lparr>key = key_name winner,
                       confidence = key_conf_with ops (cand_score winner)\<rparr>)))"

fun chord_scan_with ::
  "float_ops \<Rightarrow> real list \<Rightarrow> nat list \<Rightarrow> string \<times> real \<Rightarrow> string \<times> real" where
  "chord_scan_with ops frame_chroma [] best = best"
| "chord_scan_with ops frame_chroma (root_pc # roots) best =
     (let maj_score = fl_dot ops frame_chroma (np_roll major_template root_pc);
          min_score = fl_dot ops frame_chroma (np_roll minor_template root_pc);
          best1 = (if maj_score > snd best then (chord_names ! root_pc, maj_score) else best);
          best2 = (if min_score > snd best1 then (chord_names ! root_pc @ ''m'', min_score) else best1)
      in chord_scan_with ops frame_chroma roots best2)"

definition frame_segment_with :: "float_ops \<Rightarrow> real \<Rightarrow> real list \<Rightarrow> segment" where
  "frame_segment_with ops t frame_chroma =
     (let best = chord_scan_with ops frame_chroma [0..<12] (''N'', 0)
      in \<lparr>seg_time = t, chord = fst best, seg_confidence = min 1 (fl_div ops (snd best) 3)\<rparr>)"

definition frame_segments_with :: "float_ops \<Rightarrow> ndarray2 \<Rightarrow> real list \<Rightarrow> segment list" where
  "frame_segments_with ops chroma frame_times =
     map (\<lambda>i. frame_segment_with ops (frame_times ! i) (column chroma i)) [0..<shape1 chroma]"

definition chords_of_chroma_with ::
  "float_ops \<Rightarrow> ndarray2 \<Rightarrow> real list \<Rightarrow> pyexc + segment list" where
  "chords_of_chroma_with ops chroma frame_times =
     (if shape1 chroma = 0 then Inr []
      else if length (rows chroma) \<noteq> 12 then Inl ValueError
      else if length frame_times < shape1 chroma then Inl IndexError
      else Inr (merge_loop [] (frame_segments_with ops chroma frame_times)))"

definition detect_chords_with ::
  "float_ops \<Rightarrow> audio_env \<Rightarrow> chroma_env \<Rightarrow> string \<Rightarrow> int \<Rightarrow> pyexc + segment list" where
  "detect_chords_with ops env cenv audio_path target_sr =
     (case load_audio env audio_path target_sr True of
        Inl e \<Rightarrow> Inl e
      | Inr (audio, sr) \<Rightarrow>
          (case rows audio of
             [] \<Rightarrow> Inl IndexError
           | mono_ch # _ \<Rightarrow>
               (case chroma_cqt cenv mono_ch sr 2048 of
                  Inl e \<Rightarrow> Inl e
                | Inr chroma \<Rightarrow>
                    chords_of_chroma_with ops chroma
                      (frames_to_time cenv (shape1 chroma) sr 2048))))"

section \<open>The canonical order of the candidates\<close>

text \<open>
  The order the specification names for the 24 candidates of key estimation: tonics
  ascending from 0 to 11 and, within a tonic, major before minor. Candidate \<open>k\<close> has
  tonic \<open>k div 2\<close> and is major when \<open>k\<close> is even.
\<close>

definition key_candidate_at :: "real list \<Rightarrow> nat \<Rightarrow> key_candidate" where
  "key_candidate_at chroma_norm k =
     (if even k
      then (''major'', k div 2, np_dot chroma_norm (np_roll profile_major (k div 2)))
      else (''minor'', k div 2, np_dot chroma_norm (np_roll profile_minor (k div 2))))"

text \<open>
  The same order for the 24 candidates of a chroma frame in chord detection: rotations
  ascending from 0 to 11, the major triad before the minor triad. A candidate is its
  label and its score.
\<close>

definition chord_candidate_at :: "real list \<Rightarrow> nat \<Rightarrow> string \<times> real" where
  "chord_candidate_at frame_chroma k =
     (if even k
      then (chord_names ! (k div 2), np_dot frame_chroma (np_roll major_template (k div 2)))
      else (chord_names ! (k div 2) @ ''m'', np_dot frame_chroma (np_roll minor_template (k div 2))))"

section \<open>Runs of frames with one label\<close>

text \<open>
  The runs the specification speaks of: the list of per-frame segments cut into its
  maximal runs of consecutive segments with the same chord label. A run is its first
  segment followed by the segments after it that carry the same label.
\<close>

function label_runs :: "segment list \<Rightarrow> segment list list" where
  "label_runs [] = []"
| "label_runs (s # ss) =
     (s # takeWhile (\<lambda>x. chord x = chord s) ss)
       # label_runs (dropWhile (\<lambda>x. chord x = chord s) ss)"
  by pat_completeness auto
termination
  by (relation "measure length") (auto simp: length_dropWhile_le less_Suc_eq_le)

section \<open>Candidates by index, and the channels of a file\<close>

text \<open>
  The 24 candidates in the order the specification names, by index \<open>k\<close>: tonic (or
  rotation) \<open>k div 2\<close>, major for even \<open>k\<close> and minor for odd \<open>k\<close>. The label and
  the score of a candidate are written down directly: the score is the dot product the
  float operations return for the rotated profile (or triad template).
\<close>

definition key_label_at :: "nat \<Rightarrow> string" where
  "key_label_at k = KEY_NAMES ! (k div 2) @ (if even k then '' major'' else '' minor'')"

definition key_score_at :: "float_ops \<Rightarrow> real list \<Rightarrow> nat \<Rightarrow> real" where
  "key_score_at ops chroma_norm k =
     fl_dot ops chroma_norm
       (np_roll (if even k then profile_major_with ops else profile_minor_with ops) (k div 2))"

definition chord_label_at :: "nat \<Rightarrow> string" where
  "chord_label_at k = chord_names ! (k div 2) @ (if even k then [] else ''m'')"

definition chord_score_at :: "float_ops \<Rightarrow> real list \<Rightarrow> nat \<Rightarrow> real" where
  "chord_score_at ops frame_chroma k =
     fl_dot ops frame_chroma
       (np_roll (if even k then major_template else minor_template) (k div 2))"

text \<open>The candidate of index \<open>k\<close> as the loop of \<open>_estimate_key\<close> stores it.\<close>

definition key_candidate_with :: "float_ops \<Rightarrow> real list \<Rightarrow> nat \<Rightarrow> key_candidate" where
  "key_candidate_with ops cn k =
     (if even k then ''major'' else ''minor'', k div 2, key_score_at ops cn k)"

text \<open>
  The channel count of a file, as the library decoder that reads it reports it:
  \<open>sf.read(always_2d=True)\<close> returns shape (frames, channels); \<open>librosa.load\<close>
  returns a one-dimensional array for one channel and shape (channels, samples) otherwise.
  And what is assumed of the decoders' results: soundfile reports at least one channel, and
  a two-dimensional array of librosa has as many rows as its shape says, at least one.
\<close>

definition original_channels :: "audio_env \<Rightarrow> string \<Rightarrow> nat" where
  "original_channels env path =
     (case sf_read env path of
        Inr (a, _) \<Rightarrow> shape1 a
      | Inl _ \<Rightarrow>
          (case librosa_load env path of
             Inr (Arr1 _, _) \<Rightarrow> 1
           | Inr (Arr2 y, _) \<Rightarrow> shape0 y
           | Inl _ \<Rightarrow> 0))"

definition decoder_output_ok :: "audio_env \<Rightarrow> string \<Rightarrow> bool" where
  "decoder_output_ok env path =
     (case sf_read env path of
        Inr (a, _) \<Rightarrow> 0 < shape1 a
      | Inl _ \<Rightarrow>
          (case librosa_load env path of
             Inr (Arr2 y, _) \<Rightarrow> length (rows y) = shape0 y \<and> 0 < shape0 y
           | _ \<Rightarrow> True))"

section \<open>Concrete inputs\<close>

text \<open>One channel of seven samples, for a preview of at most four points.\<close>

definition audio7 :: ndarray2 where
  "audio7 = \<lparr>shape0 = 1, shape1 = 7, rows = [[0.1, 0.2, 0.3, 0.4, 0.5, 0.6, 0.7]]\<rparr>"

text \<open>Silence: a chroma matrix of one frame with no energy, and that frame.\<close>

definition silence_chroma :: ndarray2 where
  "silence_chroma = \<lparr>shape0 = 12, shape1 = 1,
      rows = [[0], [0], [0], [0], [0], [0], [0], [0], [0], [0], [0], [0]]\<rparr>"

definition silence_frame :: "real list" where
  "silence_frame = [0, 0, 0, 0, 0, 0, 0, 0, 0, 0, 0, 0]"

definition c_major_frame :: "real list" where
  "c_major_frame = [1, 0, 0, 0, 1, 0, 0, 1, 0, 0, 0, 0]"

text \<open>
  A run of \<open>detect_chords\<close>: a mono file at the target rate, decoded by the primary
  decoder, whose chroma has four frames: silence, C major twice, silence. The frame times
  are those of \<open>librosa.frames_to_time\<close>: frame times hop\_length / sr.
\<close>

definition demo_audio_env :: audio_env where
  "demo_audio_env =
     \<lparr>sf_read = (\<lambda>_. Inr (\<lparr>shape0 = 2, shape1 = 1, rows = [[0], [0]]\<rparr>, 44100)),
      librosa_load = (\<lambda>_. Inl (LibraryError ''NoBackendError'')),
      librosa_resample = (\<lambda>ch _ _. Inr ch)\<rparr>"

definition demo_chroma :: ndarray2 where
  "demo_chroma = \<lparr>shape0 = 12, shape1 = 4,
      rows = [[0, 1, 1, 0], [0, 0, 0, 0], [0, 0, 0, 0], [0, 0, 0, 0],
              [0, 1, 1, 0], [0, 0, 0, 0], [0, 0, 0, 0], [0, 1, 1, 0],
              [0, 0, 0, 0], [0, 0, 0, 0], [0, 0, 0, 0], [0, 0, 0, 0]]\<rparr>"

definition demo_chroma_env :: chroma_env where
  "demo_chroma_env =
     \<lparr>chroma_cqt = (\<lambda>_ _ _. Inr demo_chroma),
      frames_to_time = (\<lambda>n sr hop. map (\<lambda>i. real (i * hop) / real_of_int sr) [0..<n])\<rparr>"

definition demo_chords :: "segment list" where
  "demo_chords =
     [\<lparr>seg_time = 0, chord = ''N'', seg_confidence = 0\<rparr>,
      \<lparr>seg_time = 2048 / 44100, chord = ''C'', seg_confidence = 1\<rparr>,
      \<lparr>seg_time = 6144 / 44100, chord = ''N'', seg_confidence = 0\<rparr>]"

text \<open>The key estimate of silence.\<close>

definition silence_key :: key_estimate where
  "silence_key = \<lparr>key = ''C major'', confidence = 1 / 2\<rparr>"

text \<open>
  Decoders: a path that does not exist (libsndfile cannot open it, and librosa's fallback
  raises FileNotFoundError); a mono M4A file that only the secondary decoder reads; a
  stereo file of two frames at 22050 Hz, with a resampler that repeats every sample.
\<close>

definition missing_env :: audio_env where
  "missing_env =
     \<lparr>sf_read = (\<lambda>_. Inl (LibraryError ''LibsndfileError'')),
      librosa_load = (\<lambda>_. Inl (LibraryError ''FileNotFoundError'')),
      librosa_resample = (\<lambda>ch _ _. Inr ch)\<rparr>"

definition m4a_env :: audio_env where
  "m4a_env =
     \<lparr>sf_read = (\<lambda>_. Inl (LibraryError ''LibsndfileError'')),
      librosa_load = (\<lambda>_. Inr (Arr1 [0.5, -0.5, 0.25], 44100)),
      librosa_resample = (\<lambda>ch _ _. Inr ch)\<rparr>"

definition stereo_env :: audio_env where
  "stereo_env =
     \<lparr>sf_read = (\<lambda>_. Inr (\<lparr>shape0 = 2, shape1 = 2, rows = [[0.5, -0.5], [0.25, 0.75]]\<rparr>, 22050)),
      librosa_load = (\<lambda>_. Inl (LibraryError ''NoBackendError'')),
      librosa_resample = (\<lambda>ch _ _. Inr (concat (map (\<lambda>x. [x, x]) ch)))\<rparr>"

text \<open>
  A Demucs model as \<open>get_model\<close> returns it, and a process in which every device
  exists, every directory can be made and every file written. The states after a first
  request on the CPU, and after a second request for the same model on CUDA or on the
  CPU again.
\<close>

definition htdemucs_obj :: model_obj where
  "htdemucs_obj =
     \<lparr>variant = ''htdemucs'', device = ''cpu'', training = False, samplerate = 44100,
      sources = [''drums'', ''bass'', ''other'', ''vocals'']\<rparr>"

definition demo_demucs_env :: demucs_env where
  "demo_demucs_env =
     \<lparr>get_model = (\<lambda>n. if n = ''htdemucs'' then Inr htdemucs_obj
                          else Inl (LibraryError ''ModelLoadError'')),
      to_device_error = (\<lambda>_. None),
      mkdir_error = (\<lambda>_. None),
      apply_model = (\<lambda>m audio d. Inr [audio, audio, audio, audio]),
      sf_write_error = (\<lambda>_. None)\<rparr>"

definition after_cpu_call :: demucs_state where
  "after_cpu_call =
     snd (separate_stems demo_demucs_env demo_audio_env ''song.wav'' ''out'' ''htdemucs'' ''cpu''
            (initial_state htdemucs_obj))"

definition after_cuda_call :: demucs_state where
  "after_cuda_call =
     snd (separate_stems demo_demucs_env demo_audio_env ''song.wav'' ''out'' ''htdemucs'' ''cuda''
            after_cpu_call)"

definition after_second_cpu_call :: demucs_state where
  "after_second_cpu_call =
     snd (separate_stems demo_demucs_env demo_audio_env ''song.wav'' ''out'' ''htdemucs'' ''cpu''
            after_cpu_call)"

definition demo_stem_paths :: "string \<rightharpoonup> string" where
  "demo_stem_paths =
     [''drums'' \<mapsto> ''out/drums.wav'', ''bass'' \<mapsto> ''out/bass.wav'',
      ''other'' \<mapsto> ''out/other.wav'', ''vocals'' \<mapsto> ''out/vocals.wav'']"

text \<open>A chroma frame with energy on C and G only.\<close>

definition fifth_frame :: "real list" where
  "fifth_frame = [1, 0, 0, 0, 0, 0, 0, 1, 0, 0, 0, 0]"

text \<open>
  A chroma matrix of one frame with energy on G only, and that frame; a chroma matrix of
  three frames (silence; C and G only; the C major triad), with the run of
  \<open>detect_chords\<close> that computes it and the chord sequence of that run.
\<close>

definition g_chroma :: ndarray2 where
  "g_chroma = \<lparr>shape0 = 12, shape1 = 1,
      rows = [[0], [0], [0], [0], [0], [0], [0], [1], [0], [0], [0], [0]]\<rparr>"

definition tie_chroma :: ndarray2 where
  "tie_chroma = \<lparr>shape0 = 12, shape1 = 3,
      rows = [[0, 1, 1], [0, 0, 0], [0, 0, 0], [0, 0, 0],
              [0, 0, 1], [0, 0, 0], [0, 0, 0], [0, 1, 1],
              [0, 0, 0], [0, 0, 0], [0, 0, 0], [0, 0, 0]]\<rparr>"

definition tie_chroma_env :: chroma_env where
  "tie_chroma_env =
     \<lparr>chroma_cqt = (\<lambda>_ _ _. Inr tie_chroma),
      frames_to_time = (\<lambda>n sr hop. map (\<lambda>i. real (i * hop) / real_of_int sr) [0..<n])\<rparr>"

definition tie_chords :: "segment list" where
  "tie_chords =
     [\<lparr>seg_time = 0, chord = ''N'', seg_confidence = 0\<rparr>,
      \<lparr>seg_time = 2048 / 44100, chord = ''C'', seg_confidence = 2 / 3\<rparr>]"

definition g_frame :: "real list" where
  "g_frame = [0, 0, 0, 0, 0, 0, 0, 1, 0, 0, 0, 0]"

section \<open>Properties of the waveform preview\<close>

lemma upt_0_7: "[0..<7] = [0, 1, 2, 3, 4, 5, 6]"
  by (simp add: upt_rec)

lemma div_div_bounds:
  fixes n m :: nat
  assumes "0 < m" "m < n"
  shows "m \<le> n div (n div m)" "n div (n div m) < 2 * m"
proof -
  let ?q = "n div m"
  have q1: "1 \<le> ?q" using assms by (simp add: Suc_leI div_greater_zero_iff)
  have "?q * m \<le> n" by simp
  then show "m \<le> n div ?q" using q1
    by (metis div_le_mono div_mult_self_is_m less_eq_Suc_le mult.commute One_nat_def)
  have "n < (?q + 1) * m" using assms(1)
    by (metis Suc_eq_plus1 dividend_less_div_times mult.commute mult_Suc)
  also have "\<dots> \<le> (2 * m) * ?q" using q1 by (simp add: algebra_simps)
  finally show "n div ?q < 2 * m" using q1
    by (simp add: less_mult_imp_div_less)
qed

lemma waveform_preview_small:
  "int (shape1 a) \<le> m \<Longrightarrow> waveform_preview a m = Inr a"
  by (simp add: waveform_preview_def)

lemma waveform_preview_large:
  assumes "0 < m" "m < int (shape1 a)"
  shows "waveform_preview a m =
           Inr \<lparr>shape0 = shape0 a, shape1 = shape1 a div (shape1 a div nat m),
                rows = map (chunk_means (shape1 a div nat m) (shape1 a div (shape1 a div nat m)))
                         (rows a)\<rparr>"
proof -
  define n k where "n = shape1 a" and "k = nat m"
  have m: "m = int k" and k: "0 < k" "k < n" using assms by (simp_all add: n_def k_def)
  have q: "int n div int k = int (n div k)" by (simp add: zdiv_int)
  have q0: "0 < n div k" using k by (simp add: div_greater_zero_iff)
  have p: "int n div int (n div k) = int (n div (n div k))" by (simp add: zdiv_int)
  show ?thesis
    unfolding waveform_preview_def Let_def n_def[symmetric] m
    using k q0 by (simp add: q p)
qed

text \<open>
  What the code guarantees for \<open>max_points \<ge> 1\<close>: fewer than twice \<open>max_points\<close>
  points, no point only for an input with no sample, and at least \<open>max_points\<close> points
  for an input that is longer than \<open>max_points\<close>.
\<close>

lemma waveform_preview_points_bounds:
  assumes "1 \<le> m" "waveform_preview a m = Inr p"
  shows "points p < 2 * nat m" "(points p = 0) = (shape1 a = 0)"
    "nat m < shape1 a \<Longrightarrow> nat m \<le> points p"
proof -
  have small: "points p = shape1 a" if "int (shape1 a) \<le> m"
    using that assms by (auto simp: waveform_preview_small points_def)
  have large: "points p = shape1 a div (shape1 a div nat m)
      \<and> nat m \<le> points p \<and> points p < 2 * nat m" if "\<not> int (shape1 a) \<le> m"
  proof -
    have k: "0 < nat m" "nat m < shape1 a" using that assms by linarith+
    have "0 < m" "m < int (shape1 a)" using that assms by linarith+
    then have "points p = shape1 a div (shape1 a div nat m)"
      using assms waveform_preview_large[of m a] by (auto simp: points_def)
    then show ?thesis using div_div_bounds[OF k] by simp
  qed
  show "points p < 2 * nat m"
    using small large assms(1) by (cases "int (shape1 a) \<le> m") auto
  show "(points p = 0) = (shape1 a = 0)"
    using small large assms(1) by (cases "int (shape1 a) \<le> m") auto
  show "nat m \<le> points p" if "nat m < shape1 a"
    using large that by (cases "int (shape1 a) \<le> m") auto
qed

text \<open>
  C1, as stated: for every buffer and every \<open>max_points \<ge> 1\<close> the preview has at most
  \<open>max_points\<close> points, and no point only for an input with no sample. The docstring
  of \<open>waveform_preview\<close> says the same of \<open>max_points\<close> (the maximum number of points
  to emit per channel). On seven samples with \<open>max_points = 4\<close> the chunk size is
  \<open>7 // 4 = 1\<close> and the preview has \<open>7 // 1 = 7\<close> points: more than four. The
  second half holds (lemma \<open>waveform_preview_points_bounds\<close>).
\<close>

theorem waveform_preview_exceeds_max_points:
  "waveform_preview audio7 4 = Inr audio7 \<and> points audio7 = 7 \<and> \<not> points audio7 \<le> 4"
  by (simp add: waveform_preview_def audio7_def Let_def chunk_means_def upt_0_7 points_def)

section \<open>The scan that keeps the first strictly greater score\<close>

text \<open>
  The scan returns an element of greatest score, and the first of them: every element
  before it has a strictly smaller score.
\<close>

lemma scan_best_first_max:
  "\<exists>j<length (b # xs). scan_best f b xs = (b # xs) ! j
      \<and> (\<forall>i<length (b # xs). f ((b # xs) ! i) \<le> f ((b # xs) ! j))
      \<and> (\<forall>i<j. f ((b # xs) ! i) < f ((b # xs) ! j))"
proof (induction xs arbitrary: b)
  case Nil
  then show ?case by simp
next
  case (Cons x xs)
  show ?case
  proof (cases "f x > f b")
    case True
    from Cons.IH[of x] obtain j where j: "j < length (x # xs)"
      "scan_best f x xs = (x # xs) ! j"
      "\<forall>i<length (x # xs). f ((x # xs) ! i) \<le> f ((x # xs) ! j)"
      "\<forall>i<j. f ((x # xs) ! i) < f ((x # xs) ! j)" by blast
    have xj: "f x \<le> f ((x # xs) ! j)" using j(1,3) by (metis length_greater_0_conv list.discI nth_Cons_0)
    show ?thesis
    proof (intro exI[of _ "Suc j"] conjI allI impI)
      show "Suc j < length (b # x # xs)" using j(1) by simp
      show "scan_best f b (x # xs) = (b # x # xs) ! Suc j" using True j(2) by simp
      show "f ((b # x # xs) ! i) \<le> f ((b # x # xs) ! Suc j)" if "i < length (b # x # xs)" for i
        using that j(3) xj True by (cases i) auto
      show "f ((b # x # xs) ! i) < f ((b # x # xs) ! Suc j)" if "i < Suc j" for i
        using that j(4) xj True by (cases i) auto
    qed
  next
    case False
    from Cons.IH[of b] obtain j where j: "j < length (b # xs)"
      "scan_best f b xs = (b # xs) ! j"
      "\<forall>i<length (b # xs). f ((b # xs) ! i) \<le> f ((b # xs) ! j)"
      "\<forall>i<j. f ((b # xs) ! i) < f ((b # xs) ! j)" by blast
    have bj: "f b \<le> f ((b # xs) ! j)" using j(1,3) by (metis length_greater_0_conv list.discI nth_Cons_0)
    show ?thesis
    proof (cases j)
      case 0
      show ?thesis
      proof (intro exI[of _ 0] conjI allI impI)
        show "0 < length (b # x # xs)" by simp
        show "scan_best f b (x # xs) = (b # x # xs) ! 0" using False j(2) 0 by simp
        show "f ((b # x # xs) ! i) \<le> f ((b # x # xs) ! 0)" if "i < length (b # x # xs)" for i
        proof (cases i)
          case 0 then show ?thesis by simp
        next
          case (Suc k)
          show ?thesis
          proof (cases k)
            case 0 then show ?thesis using Suc False by simp
          next
            case (Suc l)
            then show ?thesis using \<open>i = Suc k\<close> that j(3) \<open>j = 0\<close>
              by (auto dest: spec[of _ "Suc l"])
          qed
        qed
        show "f ((b # x # xs) ! i) < f ((b # x # xs) ! 0)" if "i < 0" for i using that by simp
      qed
    next
      case (Suc j')
      have lt: "f b < f (xs ! j')" using j(4) Suc by (auto dest: spec[of _ 0])
      show ?thesis
      proof (intro exI[of _ "Suc (Suc j')"] conjI allI impI)
        show "Suc (Suc j') < length (b # x # xs)" using j(1) Suc by simp
        show "scan_best f b (x # xs) = (b # x # xs) ! Suc (Suc j')" using False j(2) Suc by simp
        show "f ((b # x # xs) ! i) \<le> f ((b # x # xs) ! Suc (Suc j'))" if "i < length (b # x # xs)" for i
        proof (cases i)
          case 0 then show ?thesis using lt by simp
        next
          case (Suc k)
          show ?thesis
          proof (cases k)
            case 0 then show ?thesis using Suc False lt by simp
          next
            case (Suc l)
            then show ?thesis using \<open>i = Suc k\<close> that j(3) \<open>j = Suc j'\<close>
              by (auto dest: spec[of _ "Suc l"])
          qed
        qed
        show "f ((b # x # xs) ! i) < f ((b # x # xs) ! Suc (Suc j'))" if "i < Suc (Suc j')" for i
        proof (cases i)
          case 0 then show ?thesis using lt by simp
        next
          case (Suc k)
          show ?thesis
          proof (cases k)
            case 0 then show ?thesis using Suc False lt by simp
          next
            case (Suc l)
            then show ?thesis using \<open>i = Suc k\<close> that j(4) \<open>j = Suc j'\<close>
              by (auto dest: spec[of _ "Suc l"])
          qed
        qed
      qed
    qed
  qed
qed

lemma upt_0_12: "[0..<12] = [0, 1, 2, 3, 4, 5, 6, 7, 8, 9, 10, 11]"
  by (simp add: upt_rec)

lemma upt_0_24: "[0..<24] = [0, 1, 2, 3, 4, 5, 6, 7, 8, 9, 10, 11, 12, 13, 14, 15, 16, 17, 18, 19,
    20, 21, 22, 23]"
  by (simp add: upt_rec)

section \<open>Key estimation in exact arithmetic\<close>

text \<open>The loop of \<open>_estimate_key\<close> builds its candidates in the canonical order.\<close>

lemma key_scores_canonical: "key_scores cn = map (key_candidate_at cn) [0..<24]"
  unfolding key_scores_def upt_0_12 upt_0_24 by (simp add: key_candidate_at_def)

text \<open>On silence the 24 scores are all 0.\<close>

lemma np_dot_zero_left: "list_all (\<lambda>x. x = 0) xs \<Longrightarrow> np_dot xs ys = 0"
proof (induction xs arbitrary: ys)
  case Nil
  then show ?case by (simp add: np_dot_def)
next
  case (Cons x xs)
  then show ?case by (cases ys) (simp_all add: np_dot_def)
qed

lemma silence_mean: "mean_axis1 silence_chroma = Some silence_frame"
  by (simp add: mean_axis1_def silence_chroma_def silence_frame_def)

lemma silence_normalized: "normalize_chroma silence_frame = silence_frame"
  by (simp add: normalize_chroma_def silence_frame_def)

lemma silence_key_score: "cand_score (key_candidate_at silence_frame k) = 0"
  by (simp add: key_candidate_at_def cand_score_def np_dot_zero_left silence_frame_def)

section \<open>Chord detection in exact arithmetic: the scan of a frame\<close>

text \<open>The loop over the roots is the scan over the candidates in the canonical order.\<close>

lemma chord_scan_as_scan_best:
  "chord_scan f roots best =
     scan_best snd best
       (concat (map (\<lambda>r. [(chord_names ! r, np_dot f (np_roll major_template r)),
                            (chord_names ! r @ ''m'', np_dot f (np_roll minor_template r))]) roots))"
  by (induction roots arbitrary: best) (simp_all add: Let_def)

lemma chord_candidates_canonical:
  "concat (map (\<lambda>r. [(chord_names ! r, np_dot f (np_roll major_template r)),
                            (chord_names ! r @ ''m'', np_dot f (np_roll minor_template r))]) [0..<12])
   = map (chord_candidate_at f) [0..<24]"
  unfolding upt_0_12 upt_0_24 by (simp add: chord_candidate_at_def)

lemma chord_scan_first_maximum:
  fixes f :: "real list"
  defines "c \<equiv> chord_candidate_at f"
  shows "(chord_scan f [0..<12] (''N'', 0) = (''N'', 0) \<and> (\<forall>k<24. snd (c k) \<le> 0))
       \<or> (\<exists>j<24. chord_scan f [0..<12] (''N'', 0) = c j \<and> 0 < snd (c j)
              \<and> (\<forall>i<24. snd (c i) \<le> snd (c j)) \<and> (\<forall>i<j. snd (c i) < snd (c j)))"
proof -
  let ?b = "(''N'', 0::real)"
  let ?xs = "map c [0..<24]"
  have run: "chord_scan f [0..<12] ?b = scan_best snd ?b ?xs"
    unfolding chord_scan_as_scan_best chord_candidates_canonical c_def ..
  have "\<exists>j<25. scan_best snd ?b ?xs = (?b # ?xs) ! j
      \<and> (\<forall>i<25. snd ((?b # ?xs) ! i) \<le> snd ((?b # ?xs) ! j))
      \<and> (\<forall>i<j. snd ((?b # ?xs) ! i) < snd ((?b # ?xs) ! j))"
    using scan_best_first_max[of ?b ?xs snd] by simp
  then obtain j where j: "j < 25" "scan_best snd ?b ?xs = (?b # ?xs) ! j"
    "\<forall>i<25. snd ((?b # ?xs) ! i) \<le> snd ((?b # ?xs) ! j)"
    "\<forall>i<j. snd ((?b # ?xs) ! i) < snd ((?b # ?xs) ! j)" by blast
  show ?thesis
  proof (cases j)
    case 0
    have "snd (c k) \<le> 0" if "k < 24" for k
      using j(3)[rule_format, of "Suc k"] that 0 by simp
    then show ?thesis using j(2) 0 run by simp
  next
    case (Suc j')
    have j': "j' < 24" using j(1) Suc by simp
    have w: "chord_scan f [0..<12] ?b = c j'" using run j(2) Suc j' by simp
    have pos: "0 < snd (c j')" using j(4)[rule_format, of 0] Suc j' by simp
    have mx: "snd (c i) \<le> snd (c j')" if "i < 24" for i
      using j(3)[rule_format, of "Suc i"] that Suc j' by simp
    have st: "snd (c i) < snd (c j')" if "i < j'" for i
      using j(4)[rule_format, of "Suc i"] that Suc j' by simp
    show ?thesis using j' w pos mx st by blast
  qed
qed

lemma silence_chord_score: "snd (chord_candidate_at silence_frame k) = 0"
  by (simp add: chord_candidate_at_def np_dot_zero_left silence_frame_def)

text \<open>
  A frame with energy on C and G only: C major and C minor both score 2, the greatest
  score.
\<close>

lemma fifth_candidates:
  "map (chord_candidate_at fifth_frame) [0..<24] =
     [(''C'', 2), (''Cm'', 2), (''C#'', 0), (''C#m'', 0), (''D'', 0), (''Dm'', 0),
      (''D#'', 1), (''D#m'', 0), (''E'', 0), (''Em'', 1), (''F'', 1), (''Fm'', 1),
      (''F#'', 0), (''F#m'', 0), (''G'', 1), (''Gm'', 1), (''G#'', 1), (''G#m'', 0),
      (''A'', 0), (''Am'', 1), (''A#'', 0), (''A#m'', 0), (''B'', 0), (''Bm'', 0)]"
  unfolding upt_0_24
  by (simp add: chord_candidate_at_def chord_names_def np_dot_def np_roll_def
      major_template_def minor_template_def fifth_frame_def)

lemma fifth_scores:
  "chord_candidate_at fifth_frame 0 = (''C'', 2)"
  "k < 24 \<Longrightarrow> snd (chord_candidate_at fifth_frame k) \<le> 2"
proof -
  let ?cs = "map (chord_candidate_at fifth_frame) [0..<24]"
  have "?cs ! 0 = (''C'', 2)" unfolding fifth_candidates by simp
  then show "chord_candidate_at fifth_frame 0 = (''C'', 2)" by simp
  have "list_all (\<lambda>c. snd c \<le> 2) ?cs" unfolding fifth_candidates by simp
  then have "\<forall>k<24. snd (?cs ! k) \<le> 2" by (simp add: list_all_length)
  then show "snd (chord_candidate_at fifth_frame k) \<le> 2" if "k < 24" using that by simp
qed

section \<open>Chord detection: merging\<close>

text \<open>
  The merge loop keeps the first segment of every run. The runs make up the whole list,
  each has one label, and neighbouring runs have different labels.
\<close>

lemma merge_loop_runs:
  "merged \<noteq> [] \<Longrightarrow>
     merge_loop merged segs =
       merged @ map hd (label_runs (dropWhile (\<lambda>x. chord x = chord (last merged)) segs))"
proof (induction segs arbitrary: merged)
  case Nil
  then show ?case by simp
next
  case (Cons seg segs)
  show ?case
  proof (cases "chord (last merged) = chord seg")
    case True
    then show ?thesis using Cons by simp
  next
    case False
    have "merge_loop merged (seg # segs) = merge_loop (merged @ [seg]) segs"
      using False by simp
    also have "\<dots> = (merged @ [seg]) @
        map hd (label_runs (dropWhile (\<lambda>x. chord x = chord seg) segs))"
      using Cons.IH[of "merged @ [seg]"] by simp
    finally show ?thesis using False by simp
  qed
qed

lemma merge_loop_empty: "merge_loop [] segs = map hd (label_runs segs)"
proof (cases segs)
  case Nil
  then show ?thesis by simp
next
  case (Cons seg rest)
  then show ?thesis using merge_loop_runs[of "[seg]" rest] by simp
qed

lemma concat_label_runs: "concat (label_runs segs) = segs"
  by (induction segs rule: label_runs.induct) simp_all

lemma label_runs_constant:
  "r \<in> set (label_runs segs) \<Longrightarrow> r \<noteq> [] \<and> list_all (\<lambda>x. chord x = chord (hd r)) r"
proof (induction segs rule: label_runs.induct)
  case 1
  then show ?case by simp
next
  case (2 s ss)
  let ?P = "\<lambda>x. chord x = chord s"
  from 2(2) consider "r = s # takeWhile ?P ss" | "r \<in> set (label_runs (dropWhile ?P ss))"
    by auto
  then show ?case
  proof cases
    case 1
    have "list_all ?P (takeWhile ?P ss)"
      unfolding list_all_iff using set_takeWhileD by fastforce
    then show ?thesis using 1 by simp
  next
    case 2
    then show ?thesis using "2.IH" by blast
  qed
qed

lemma label_runs_hd_chord:
  "label_runs segs = r # rs \<Longrightarrow> segs \<noteq> [] \<and> chord (hd r) = chord (hd segs)"
  by (cases segs) auto

lemma label_runs_adjacent:
  "distinct_adj (map (\<lambda>r. chord (hd r)) (label_runs segs))"
proof (induction segs rule: label_runs.induct)
  case 1
  then show ?case by simp
next
  case (2 s ss)
  let ?rest = "dropWhile (\<lambda>x. chord x = chord s) ss"
  show ?case
  proof (cases "label_runs ?rest")
    case Nil
    then show ?thesis by simp
  next
    case (Cons r rs)
    then have ne: "?rest \<noteq> []" and h: "chord (hd r) = chord (hd ?rest)"
      using label_runs_hd_chord by blast+
    have "chord (hd ?rest) \<noteq> chord s" using ne hd_dropWhile[of "\<lambda>x. chord x = chord s" ss] by blast
    then show ?thesis using 2 Cons h by (simp add: distinct_adj_Cons)
  qed
qed

lemma distinct_adj_nth:
  "distinct_adj xs \<Longrightarrow> Suc i < length xs \<Longrightarrow> xs ! i \<noteq> xs ! Suc i"
proof (induction xs arbitrary: i)
  case Nil
  then show ?case by simp
next
  case (Cons x xs)
  show ?case
  proof (cases i)
    case 0
    then show ?thesis using Cons.prems by (cases xs) simp_all
  next
    case (Suc k)
    have "distinct_adj xs" using Cons.prems(1) by (cases xs) simp_all
    then show ?thesis using Cons.IH[of k] Cons.prems(2) Suc by simp
  qed
qed

lemma chords_of_chroma_runs:
  assumes "chords_of_chroma chroma frame_times = Inr merged"
  shows "merged = map hd (label_runs (frame_segments chroma frame_times))"
proof (cases "shape1 chroma = 0")
  case True
  then show ?thesis using assms by (simp add: chords_of_chroma_def frame_segments_def)
next
  case False
  then show ?thesis using assms
    by (auto simp: chords_of_chroma_def merge_loop_empty split: if_splits)
qed

lemma map_hd_runs_no_adjacent:
  assumes "Suc i < length (map hd (label_runs segs))"
  shows "chord (map hd (label_runs segs) ! i) \<noteq> chord (map hd (label_runs segs) ! Suc i)"
proof -
  let ?m = "map (\<lambda>r. chord (hd r)) (label_runs segs)"
  have "?m ! i \<noteq> ?m ! Suc i"
    using distinct_adj_nth[OF label_runs_adjacent, of i segs] assms by simp
  then show ?thesis using assms by simp
qed

text \<open>Evaluating the concrete run.\<close>

lemma chord_scan_candidates:
  "chord_scan f [0..<12] best = scan_best snd best (map (chord_candidate_at f) [0..<24])"
  unfolding chord_scan_as_scan_best chord_candidates_canonical ..

lemma c_major_candidates:
  "map (chord_candidate_at c_major_frame) [0..<24] =
     [(''C'', 3), (''Cm'', 2), (''C#'', 0), (''C#m'', 1), (''D'', 0), (''Dm'', 0),
      (''D#'', 1), (''D#m'', 0), (''E'', 1), (''Em'', 2), (''F'', 1), (''Fm'', 1),
      (''F#'', 0), (''F#m'', 0), (''G'', 1), (''Gm'', 1), (''G#'', 1), (''G#m'', 0),
      (''A'', 1), (''Am'', 2), (''A#'', 0), (''A#m'', 0), (''B'', 0), (''Bm'', 0)]"
  unfolding upt_0_24
  by (simp add: chord_candidate_at_def chord_names_def np_dot_def np_roll_def
      major_template_def minor_template_def c_major_frame_def)

lemma frame_segment_c_major:
  "frame_segment t c_major_frame = \<lparr>seg_time = t, chord = ''C'', seg_confidence = 1\<rparr>"
  by (simp add: frame_segment_def chord_scan_candidates c_major_candidates)

lemma chord_scan_silence: "chord_scan silence_frame [0..<12] (''N'', 0) = (''N'', 0)"
  using chord_scan_first_maximum[of silence_frame] by (auto simp: silence_chord_score)

lemma frame_segment_silence:
  "frame_segment t silence_frame = \<lparr>seg_time = t, chord = ''N'', seg_confidence = 0\<rparr>"
  by (simp add: frame_segment_def chord_scan_silence)

lemma upt_0_4: "[0..<4] = [0, 1, 2, 3]"
  by (simp add: upt_rec)

lemma demo_load_audio:
  "load_audio demo_audio_env p 44100 True = Inr (\<lparr>shape0 = 1, shape1 = 2, rows = [[0, 0]]\<rparr>, 44100)"
  by (simp add: load_audio_def decode_audio_def demo_audio_env_def transpose2_def column_def)

lemma demo_frame_segments:
  "frame_segments demo_chroma (frames_to_time demo_chroma_env 4 44100 2048) =
     [\<lparr>seg_time = 0, chord = ''N'', seg_confidence = 0\<rparr>,
      \<lparr>seg_time = 2048 / 44100, chord = ''C'', seg_confidence = 1\<rparr>,
      \<lparr>seg_time = 4096 / 44100, chord = ''C'', seg_confidence = 1\<rparr>,
      \<lparr>seg_time = 6144 / 44100, chord = ''N'', seg_confidence = 0\<rparr>]"
proof -
  have cols: "column demo_chroma 0 = silence_frame" "column demo_chroma (Suc 0) = c_major_frame"
    "column demo_chroma 2 = c_major_frame" "column demo_chroma 3 = silence_frame"
    by (simp_all add: column_def demo_chroma_def silence_frame_def c_major_frame_def)
  have sh: "shape1 demo_chroma = 4" by (simp add: demo_chroma_def)
  have ts: "frames_to_time demo_chroma_env 4 44100 2048 = [0, 2048 / 44100, 4096 / 44100, 6144 / 44100]"
    by (simp add: demo_chroma_env_def upt_0_4)
  show ?thesis
    unfolding frame_segments_def sh ts upt_0_4
    by (simp add: cols frame_segment_silence frame_segment_c_major)
qed

lemma demo_detect_chords:
  "detect_chords demo_audio_env demo_chroma_env ''song.wav'' 44100 = Inr demo_chords"
proof -
  have sh: "shape1 demo_chroma = 4" "length (rows demo_chroma) = 12" by (simp_all add: demo_chroma_def)
  have len: "length (frames_to_time demo_chroma_env 4 44100 2048) = 4"
    by (simp add: demo_chroma_env_def)
  have "chords_of_chroma demo_chroma (frames_to_time demo_chroma_env 4 44100 2048) = Inr demo_chords"
    unfolding chords_of_chroma_def sh len demo_frame_segments by (simp add: demo_chords_def)
  then show ?thesis
    by (simp add: detect_chords_def demo_load_audio sh) (simp add: demo_chroma_env_def sh)
qed

text \<open>
  C7. Whenever \<open>detect_chords\<close> returns, the chord sequence is the list of the first
  segments of the runs of the per-frame segments (so each run is one entry, with the time
  of its first frame), and no two adjacent entries share a chord label.
\<close>

theorem detect_chords_merges_runs:
  assumes "detect_chords env cenv audio_path target_sr = Inr merged"
  shows "\<exists>audio sr mono_ch others chroma.
           load_audio env audio_path target_sr True = Inr (audio, sr)
         \<and> rows audio = mono_ch # others
         \<and> chroma_cqt cenv mono_ch sr 2048 = Inr chroma
         \<and> merged = map hd (label_runs
               (frame_segments chroma (frames_to_time cenv (shape1 chroma) sr 2048)))
         \<and> (\<forall>i. Suc i < length merged \<longrightarrow> chord (merged ! i) \<noteq> chord (merged ! Suc i))"
proof -
  from assms obtain audio sr where la: "load_audio env audio_path target_sr True = Inr (audio, sr)"
    by (auto simp: detect_chords_def split: sum.splits)
  from assms la obtain mono_ch others where rw: "rows audio = mono_ch # others"
    by (auto simp: detect_chords_def split: list.splits)
  from assms la rw obtain chroma where ch: "chroma_cqt cenv mono_ch sr 2048 = Inr chroma"
    by (auto simp: detect_chords_def split: sum.splits)
  have "chords_of_chroma chroma (frames_to_time cenv (shape1 chroma) sr 2048) = Inr merged"
    using assms la rw ch by (simp add: detect_chords_def)
  then have m: "merged = map hd (label_runs
      (frame_segments chroma (frames_to_time cenv (shape1 chroma) sr 2048)))"
    by (rule chords_of_chroma_runs)
  have "\<forall>i. Suc i < length merged \<longrightarrow> chord (merged ! i) \<noteq> chord (merged ! Suc i)"
    unfolding m using map_hd_runs_no_adjacent by blast
  then show ?thesis using la rw ch m by blast
qed

text \<open>
  On the concrete run the frames are labelled N, C, C, N and the sequence returned is
  N, C, N, with the time of the first C frame.
\<close>

theorem detect_chords_merges_runs_witness:
  "detect_chords demo_audio_env demo_chroma_env ''song.wav'' 44100 = Inr demo_chords
   \<and> map chord (frame_segments demo_chroma (frames_to_time demo_chroma_env 4 44100 2048))
       = [''N'', ''C'', ''C'', ''N'']
   \<and> map chord demo_chords = [''N'', ''C'', ''N'']
   \<and> chord (demo_chords ! 0) \<noteq> chord (demo_chords ! 1)
   \<and> chord (demo_chords ! 1) \<noteq> chord (demo_chords ! 2)"
proof -
  from detect_chords_merges_runs[OF demo_detect_chords]
  have adj: "\<forall>i. Suc i < length demo_chords \<longrightarrow> chord (demo_chords ! i) \<noteq> chord (demo_chords ! Suc i)"
    by blast
  have l: "length demo_chords = 3" by (simp add: demo_chords_def)
  have "chord (demo_chords ! 0) \<noteq> chord (demo_chords ! Suc 0)"
    "chord (demo_chords ! 1) \<noteq> chord (demo_chords ! Suc 1)"
    using adj l by simp_all
  then show ?thesis
    using demo_detect_chords by (simp add: demo_frame_segments) (simp add: demo_chords_def)
qed

section \<open>Confidence values\<close>

text \<open>The clamp of the key confidence, and facts about the scan shared by both services.\<close>

lemma key_conf_bounds: "0 \<le> key_conf b" "key_conf b \<le> 1"
  by (simp_all add: key_conf_def)

lemma key_conf_nonneg_score:
  "0 \<le> b \<Longrightarrow> key_conf b = min 1 ((b + 1) / 2)" "0 \<le> b \<Longrightarrow> 1 / 2 \<le> key_conf b"
  by (simp_all add: key_conf_def min_def max_def)

lemma scan_best_in_set: "scan_best f b xs \<in> set (b # xs)"
proof (induction xs arbitrary: b)
  case Nil
  then show ?case by simp
next
  case (Cons x xs)
  show ?case
  proof (cases "f x > f b")
    case True
    then show ?thesis using Cons[of x] by auto
  next
    case False
    then show ?thesis using Cons[of b] by auto
  qed
qed

lemma scan_best_ge_start: "f b \<le> f (scan_best f b xs)"
proof (induction xs arbitrary: b)
  case Nil
  then show ?case by simp
next
  case (Cons x xs)
  show ?case
  proof (cases "f x > f b")
    case True
    then show ?thesis using Cons[of x] by simp
  next
    case False
    then show ?thesis using Cons[of b] by simp
  qed
qed

lemma scan_best_keep: "list_all (\<lambda>x. f x \<le> f b) xs \<Longrightarrow> scan_best f b xs = b"
  by (induction xs) simp_all

lemma key_scores_nonempty: "key_scores cn = key_candidate_at cn 0 # map (key_candidate_at cn) [1..<24]"
  unfolding key_scores_canonical by (simp add: upt_rec[of 0])

lemma estimate_key_cases:
  assumes "estimate_key chroma = Inr k"
  shows "(shape1 chroma = 0 \<and> confidence k = 1)
       \<or> (\<exists>cm w. mean_axis1 chroma = Some cm \<and> w \<in> set (key_scores (normalize_chroma cm))
             \<and> confidence k = key_conf (cand_score w))"
proof (cases "mean_axis1 chroma")
  case None
  then have "shape1 chroma = 0" by (simp add: mean_axis1_def split: if_splits)
  moreover have "confidence k = 1" using assms None
    by (auto simp: estimate_key_def split: if_splits)
  ultimately show ?thesis by simp
next
  case (Some cm)
  let ?cn = "normalize_chroma cm"
  let ?w = "scan_best cand_score (key_candidate_at ?cn 0) (map (key_candidate_at ?cn) [1..<24])"
  have "?w \<in> set (key_scores ?cn)"
    using scan_best_in_set[of cand_score "key_candidate_at ?cn 0"] by (simp only: key_scores_nonempty)
  moreover have "confidence k = key_conf (cand_score ?w)" using assms Some
    by (auto simp: estimate_key_def py_max_def key_scores_nonempty split: if_splits)
  ultimately show ?thesis using Some by blast
qed

lemma estimate_key_total:
  "length (rows chroma) = 12 \<Longrightarrow> \<exists>k. estimate_key chroma = Inr k"
  by (cases "mean_axis1 chroma") (simp_all add: estimate_key_def py_max_def key_scores_nonempty)

lemma estimate_key_silence: "estimate_key silence_chroma = Inr silence_key"
proof -
  have z: "list_all (\<lambda>x. cand_score x \<le> cand_score (key_candidate_at silence_frame 0))
      (map (key_candidate_at silence_frame) [1..<24])"
    by (simp add: list_all_iff silence_key_score)
  have "scan_best cand_score (key_candidate_at silence_frame 0)
      (map (key_candidate_at silence_frame) [1..<24]) = key_candidate_at silence_frame 0"
    using scan_best_keep[OF z] .
  moreover have "key_name (key_candidate_at silence_frame 0) = ''C major''"
    by (simp add: key_name_def key_candidate_at_def KEY_NAMES_def)
  moreover have "key_conf 0 = 1 / 2" by (simp add: key_conf_def)
  moreover have "length (rows silence_chroma) = 12" by (simp add: silence_chroma_def)
  ultimately show ?thesis
    by (simp add: estimate_key_def silence_mean silence_normalized py_max_def key_scores_nonempty
        silence_key_score silence_key_def)
qed

lemma chord_scan_score_nonneg: "0 \<le> snd (chord_scan f [0..<12] (''N'', 0))"
  unfolding chord_scan_candidates using scan_best_ge_start[of snd "(''N'', 0)"] by simp

lemma frame_segment_confidence:
  "0 \<le> seg_confidence (frame_segment t f)" "seg_confidence (frame_segment t f) \<le> 1"
  using chord_scan_score_nonneg[of f] by (simp_all add: frame_segment_def Let_def)

lemma merge_loop_subset: "set (merge_loop merged segs) \<subseteq> set merged \<union> set segs"
proof (induction segs arbitrary: merged)
  case Nil
  then show ?case by simp
next
  case (Cons seg segs)
  show ?case
  proof (cases "merged \<noteq> [] \<and> chord (last merged) = chord seg")
    case True
    then show ?thesis using Cons[of merged] by auto
  next
    case False
    then have "merge_loop merged (seg # segs) = merge_loop (merged @ [seg]) segs" by auto
    then show ?thesis using Cons[of "merged @ [seg]"] by auto
  qed
qed

lemma chords_of_chroma_confidence:
  assumes "chords_of_chroma chroma frame_times = Inr merged" "s \<in> set merged"
  shows "0 \<le> seg_confidence s \<and> seg_confidence s \<le> 1"
proof -
  have "set merged \<subseteq> set (frame_segments chroma frame_times)"
    using assms(1) merge_loop_subset[of "[]" "frame_segments chroma frame_times"]
    by (auto simp: chords_of_chroma_def split: if_splits)
  then obtain t f where "s = frame_segment t f"
    using assms(2) by (auto simp: frame_segments_def)
  then show ?thesis using frame_segment_confidence by simp
qed

lemma detect_chords_as_chords_of_chroma:
  assumes "detect_chords env cenv audio_path target_sr = Inr merged"
  shows "\<exists>chroma frame_times. chords_of_chroma chroma frame_times = Inr merged"
proof -
  from assms obtain audio sr where la: "load_audio env audio_path target_sr True = Inr (audio, sr)"
    by (auto simp: detect_chords_def split: sum.splits)
  from assms la obtain mono_ch others where rw: "rows audio = mono_ch # others"
    by (auto simp: detect_chords_def split: list.splits)
  from assms la rw obtain chroma where ch: "chroma_cqt cenv mono_ch sr 2048 = Inr chroma"
    by (auto simp: detect_chords_def split: sum.splits)
  have "chords_of_chroma chroma (frames_to_time cenv (shape1 chroma) sr 2048) = Inr merged"
    using assms la rw ch by (simp add: detect_chords_def)
  then show ?thesis by blast
qed

text \<open>
  C9. Whenever \<open>_estimate_key\<close> returns, its confidence lies in [0, 1], and whenever
  \<open>detect_chords\<close> returns, the confidence of every chord segment lies in [0, 1]. The
  chord confidence has no lower clamp; it is not negative because the best score starts
  at 0 and is only replaced by a greater one.
\<close>

theorem confidences_in_unit_interval:
  "(estimate_key chroma = Inr k \<longrightarrow> 0 \<le> confidence k \<and> confidence k \<le> 1)
   \<and> (detect_chords env cenv audio_path target_sr = Inr merged \<longrightarrow>
        list_all (\<lambda>s. 0 \<le> seg_confidence s \<and> seg_confidence s \<le> 1) merged)"
proof (rule conjI)
  show "estimate_key chroma = Inr k \<longrightarrow> 0 \<le> confidence k \<and> confidence k \<le> 1"
  proof
    assume "estimate_key chroma = Inr k"
    from estimate_key_cases[OF this] show "0 \<le> confidence k \<and> confidence k \<le> 1"
      using key_conf_bounds by auto
  qed
  show "detect_chords env cenv audio_path target_sr = Inr merged \<longrightarrow>
        list_all (\<lambda>s. 0 \<le> seg_confidence s \<and> seg_confidence s \<le> 1) merged"
  proof
    assume "detect_chords env cenv audio_path target_sr = Inr merged"
    then obtain chroma' ft where "chords_of_chroma chroma' ft = Inr merged"
      using detect_chords_as_chords_of_chroma by blast
    then show "list_all (\<lambda>s. 0 \<le> seg_confidence s \<and> seg_confidence s \<le> 1) merged"
      unfolding list_all_iff using chords_of_chroma_confidence by blast
  qed
qed

text \<open>On silence: the key confidence is one half, and silent frames have confidence 0.\<close>

theorem confidences_in_unit_interval_witness:
  "estimate_key silence_chroma = Inr silence_key
   \<and> detect_chords demo_audio_env demo_chroma_env ''song.wav'' 44100 = Inr demo_chords
   \<and> 0 \<le> confidence silence_key \<and> confidence silence_key \<le> 1
   \<and> list_all (\<lambda>s. 0 \<le> seg_confidence s \<and> seg_confidence s \<le> 1) demo_chords"
  using confidences_in_unit_interval[of silence_chroma silence_key demo_audio_env demo_chroma_env
      "''song.wav''" 44100 demo_chords]
    estimate_key_silence demo_detect_chords by simp

section \<open>Key confidence on non-negative chroma\<close>

text \<open>
  Every score is a dot product of vectors with non-negative entries: the normalised mean
  chroma and a rotation of a normalised profile.
\<close>

lemma np_dot_nonneg:
  "list_all (\<lambda>x. 0 \<le> x) xs \<Longrightarrow> list_all (\<lambda>y. 0 \<le> y) ys \<Longrightarrow> 0 \<le> np_dot xs ys"
proof (induction xs arbitrary: ys)
  case Nil
  then show ?case by (simp add: np_dot_def)
next
  case (Cons x xs)
  show ?case
  proof (cases ys)
    case Nil
    then show ?thesis by (simp add: np_dot_def)
  next
    case (Cons y ys')
    have "0 \<le> np_dot xs ys'" using Cons.IH[of ys'] Cons.prems Cons by simp
    moreover have "0 \<le> x * y" using Cons.prems Cons by simp
    ultimately show ?thesis using Cons by (simp add: np_dot_def)
  qed
qed

lemma np_roll_list_all: "list_all P xs \<Longrightarrow> list_all P (np_roll xs k)"
  unfolding list_all_iff np_roll_def Let_def
  by (auto dest: in_set_dropD in_set_takeD)

lemma linalg_norm_nonneg: "0 \<le> linalg_norm xs"
  unfolding linalg_norm_def by (auto intro!: sum_list_nonneg)

lemma profiles_nonneg:
  "list_all (\<lambda>x. 0 \<le> x) profile_major" "list_all (\<lambda>x. 0 \<le> x) profile_minor"
  using linalg_norm_nonneg[of KRUMHANSL_MAJOR] linalg_norm_nonneg[of KRUMHANSL_MINOR]
  by (simp_all add: profile_major_def profile_minor_def KRUMHANSL_MAJOR_def KRUMHANSL_MINOR_def)

lemma mean_axis1_nonneg:
  assumes "list_all (list_all (\<lambda>v. 0 \<le> v)) (rows chroma)" "mean_axis1 chroma = Some cm"
  shows "list_all (\<lambda>x. 0 \<le> x) cm"
proof -
  have cm: "cm = map (\<lambda>r. sum_list r / real (shape1 chroma)) (rows chroma)"
    using assms(2) by (simp add: mean_axis1_def split: if_splits)
  have "0 \<le> sum_list r / real (shape1 chroma)" if "r \<in> set (rows chroma)" for r
  proof -
    have "\<forall>v\<in>set r. 0 \<le> v" using assms(1) that by (auto simp: list_all_iff)
    then have "0 \<le> sum_list r" by (simp add: sum_list_nonneg)
    then show ?thesis by simp
  qed
  then show ?thesis unfolding cm list_all_iff by auto
qed

lemma normalize_chroma_nonneg:
  assumes "list_all (\<lambda>x. 0 \<le> x) cm"
  shows "list_all (\<lambda>x. 0 \<le> x) (normalize_chroma cm)"
proof -
  have "0 \<le> linalg_norm cm + 1 / 10 ^ 9" using linalg_norm_nonneg[of cm] by simp
  then show ?thesis using assms unfolding normalize_chroma_def list_all_iff by auto
qed

lemma key_scores_nonneg:
  assumes "list_all (\<lambda>x. 0 \<le> x) cn" "w \<in> set (key_scores cn)"
  shows "0 \<le> cand_score w"
proof -
  from assms(2) obtain k where "w = key_candidate_at cn k"
    unfolding key_scores_canonical by auto
  then show ?thesis
    using np_dot_nonneg[OF assms(1) np_roll_list_all[OF profiles_nonneg(1)]]
      np_dot_nonneg[OF assms(1) np_roll_list_all[OF profiles_nonneg(2)]]
    by (simp add: key_candidate_at_def cand_score_def)
qed

text \<open>
  C10. For a chroma matrix with non-negative values, whenever \<open>_estimate_key\<close> returns,
  the confidence is at least one half and at most 1; with at least one frame it is
  \<open>min(1, (best + 1) / 2)\<close> for a best score that is not negative, so the lower clamp
  at 0 is not active.
\<close>

theorem key_confidence_at_least_half:
  assumes "list_all (list_all (\<lambda>v. 0 \<le> v)) (rows chroma)"
    and "estimate_key chroma = Inr k"
  shows "1 / 2 \<le> confidence k \<and> confidence k \<le> 1
       \<and> (0 < shape1 chroma \<longrightarrow> (\<exists>best\<ge>0. confidence k = min 1 ((best + 1) / 2)))"
proof -
  have a: ?thesis if "shape1 chroma = 0" "confidence k = 1"
    using that by simp
  have b: ?thesis
    if "mean_axis1 chroma = Some cm" "w \<in> set (key_scores (normalize_chroma cm))"
      "confidence k = key_conf (cand_score w)" for cm w
  proof -
    have "0 \<le> cand_score w"
      using key_scores_nonneg[OF normalize_chroma_nonneg[OF mean_axis1_nonneg[OF assms(1) that(1)]] that(2)] .
    then show ?thesis
      using that(3) key_conf_nonneg_score[of "cand_score w"] key_conf_bounds(2)[of "cand_score w"]
      by auto
  qed
  from estimate_key_cases[OF assms(2)] show ?thesis using a b by auto
qed

text \<open>The chroma of the concrete run (silence and C major frames) has such a key estimate.\<close>

theorem key_confidence_at_least_half_witness:
  "\<exists>k. estimate_key demo_chroma = Inr k \<and> 1 / 2 \<le> confidence k \<and> confidence k \<le> 1"
proof -
  have nn: "list_all (list_all (\<lambda>v. 0 \<le> v)) (rows demo_chroma)"
    by (simp add: demo_chroma_def)
  have "length (rows demo_chroma) = 12" by (simp add: demo_chroma_def)
  then obtain k where k: "estimate_key demo_chroma = Inr k"
    using estimate_key_total by blast
  from key_confidence_at_least_half[OF nn k] show ?thesis using k by blast
qed

section \<open>Loading audio\<close>

text \<open>
  C3, as stated: when no decoder succeeds, \<open>load\<close> fails with a DecodeError. The code
  defines no such error and wraps nothing: for a path that does not exist both decoders
  fail and the caller receives the exception of the secondary decoder, here librosa's
  FileNotFoundError.
\<close>

theorem load_audio_not_DecodeError:
  "sf_read missing_env ''missing.wav'' = Inl (LibraryError ''LibsndfileError'')
   \<and> librosa_load missing_env ''missing.wav'' = Inl (LibraryError ''FileNotFoundError'')
   \<and> load_audio missing_env ''missing.wav'' 44100 False = Inl (LibraryError ''FileNotFoundError'')
   \<and> load_audio missing_env ''missing.wav'' 44100 False \<noteq> Inl (LibraryError ''DecodeError'')"
  by (simp add: load_audio_def decode_audio_def missing_env_def)

text \<open>The try block and its handler, case by case.\<close>

lemma decode_audio_primary:
  "sf_read env path = Inr (a, sr0) \<Longrightarrow> decode_audio env path = Inr (transpose2 a, sr0)"
  by (simp add: decode_audio_def)

lemma decode_audio_secondary:
  "sf_read env path = Inl e1 \<Longrightarrow> is_Exception e1 \<Longrightarrow> librosa_load env path = Inr (y, sr0) \<Longrightarrow>
     decode_audio env path = Inr (channel_first y, sr0)"
  by (simp add: decode_audio_def)

lemma decode_audio_both_fail:
  "sf_read env path = Inl e1 \<Longrightarrow> is_Exception e1 \<Longrightarrow> librosa_load env path = Inl e2 \<Longrightarrow>
     decode_audio env path = Inl e2"
  by (simp add: decode_audio_def)

lemma load_audio_decode_error:
  "decode_audio env path = Inl e \<Longrightarrow> load_audio env path target_sr mono_flag = Inl e"
  by (simp add: load_audio_def)

text \<open>
  C3, amended. \<open>load_audio\<close> tries the primary decoder; when that raises an Exception
  it tries the secondary decoder; and when the secondary decoder raises as well,
  \<open>load_audio\<close> fails with the exception the secondary decoder raised, unchanged.
\<close>

theorem load_audio_decode_fallback:
  "(sf_read env path = Inr (a, sr0) \<longrightarrow> decode_audio env path = Inr (transpose2 a, sr0))
   \<and> (sf_read env path = Inl e1 \<and> is_Exception e1 \<and> librosa_load env path = Inr (y, sr0) \<longrightarrow>
        decode_audio env path = Inr (channel_first y, sr0))
   \<and> (sf_read env path = Inl e1 \<and> is_Exception e1 \<and> librosa_load env path = Inl e2 \<longrightarrow>
        load_audio env path target_sr mono_flag = Inl e2)"
  using decode_audio_primary decode_audio_secondary decode_audio_both_fail load_audio_decode_error
  by blast

text \<open>
  The M4A file is decoded by the secondary decoder, and the missing path fails with the
  secondary decoder's exception.
\<close>

theorem load_audio_decode_fallback_witness:
  "decode_audio m4a_env ''song.m4a'' = Inr (\<lparr>shape0 = 1, shape1 = 3, rows = [[0.5, -0.5, 0.25]]\<rparr>, 44100)
   \<and> load_audio missing_env ''missing.wav'' 22050 True = Inl (LibraryError ''FileNotFoundError'')"
proof -
  have 1: "sf_read m4a_env ''song.m4a'' = Inl (LibraryError ''LibsndfileError'')
      \<and> is_Exception (LibraryError ''LibsndfileError'')
      \<and> librosa_load m4a_env ''song.m4a'' = Inr (Arr1 [0.5, -0.5, 0.25], 44100)"
    by (simp add: m4a_env_def)
  have 2: "sf_read missing_env ''missing.wav'' = Inl (LibraryError ''LibsndfileError'')
      \<and> is_Exception (LibraryError ''LibsndfileError'')
      \<and> librosa_load missing_env ''missing.wav'' = Inl (LibraryError ''FileNotFoundError'')"
    by (simp add: missing_env_def)
  have "decode_audio m4a_env ''song.m4a'' = Inr (channel_first (Arr1 [0.5, -0.5, 0.25]), 44100)"
    using load_audio_decode_fallback[where env = m4a_env and path = "''song.m4a''"
        and ?e1.0 = "LibraryError ''LibsndfileError''" and y = "Arr1 [0.5, -0.5, 0.25]"
        and ?sr0.0 = 44100] 1 by blast
  moreover have "load_audio missing_env ''missing.wav'' 22050 True = Inl (LibraryError ''FileNotFoundError'')"
    using load_audio_decode_fallback[where env = missing_env and path = "''missing.wav''"
        and ?e1.0 = "LibraryError ''LibsndfileError''" and ?e2.0 = "LibraryError ''FileNotFoundError''"
        and target_sr = 22050 and mono_flag = True] 2 by blast
  ultimately show ?thesis by (simp add: channel_first_def)
qed

text \<open>The resampling loop keeps the number of channels, and so does \<open>np.stack\<close>.\<close>

lemma resample_channels_length:
  "resample_channels env sr target_sr chs = Inr rs \<Longrightarrow> length rs = length chs"
  by (induction chs arbitrary: rs) (auto split: sum.splits)

lemma np_stack_shape0: "np_stack xs = Inr a \<Longrightarrow> shape0 a = length xs"
  by (auto simp: np_stack_def split: list.splits if_splits)

text \<open>
  The rate and the channel count of the result, from what the decoding step produced.
\<close>

lemma load_audio_channels_of_decoded:
  assumes "load_audio env path target_sr mono_flag = Inr (audio, sr)"
    and "decode_audio env path = Inr (decoded, native_sr)"
    and "length (rows decoded) = shape0 decoded" and "0 < shape0 decoded"
  shows "sr = target_sr \<and> shape0 audio = (if mono_flag then 1 else shape0 decoded)"
proof -
  define mixed where
    "mixed = (if mono_flag \<and> shape0 decoded > 1 then mean_axis0_keepdims decoded else decoded)"
  have ch: "shape0 mixed = (if mono_flag then 1 else shape0 decoded)"
    "length (rows mixed) = shape0 mixed"
    using assms(3,4) by (auto simp: mixed_def mean_axis0_keepdims_def)
  show ?thesis
  proof (cases "native_sr = target_sr")
    case True
    then have "audio = mixed" "sr = target_sr"
      using assms(1,2) by (simp_all add: load_audio_def mixed_def Let_def)
    then show ?thesis using ch by simp
  next
    case False
    then obtain resampled where rs: "resample_channels env native_sr target_sr (rows mixed) = Inr resampled"
      and st: "np_stack resampled = Inr audio" and sr: "sr = target_sr"
      using assms(1,2) by (auto simp: load_audio_def mixed_def Let_def split: sum.splits if_splits)
    have "shape0 audio = length (rows mixed)"
      using np_stack_shape0[OF st] resample_channels_length[OF rs] by simp
    then show ?thesis using ch sr by simp
  qed
qed

text \<open>
  \<open>load_audio\<close> does return: when a decoder succeeds with a well-formed array of at
  least one channel and the resampler succeeds on every channel, with an output length
  that is the same for channels of the same length.
\<close>

lemma resample_channels_ok:
  assumes "\<forall>ch\<in>set chs. \<exists>r. librosa_resample env ch sr target_sr = Inr r \<and> length r = n"
  shows "\<exists>rs. resample_channels env sr target_sr chs = Inr rs \<and> length rs = length chs
           \<and> list_all (\<lambda>r. length r = n) rs"
  using assms
proof (induction chs)
  case Nil
  then show ?case by simp
next
  case (Cons ch chs)
  from Cons.prems obtain r where r: "librosa_resample env ch sr target_sr = Inr r" "length r = n"
    by auto
  from Cons obtain rs where rs: "resample_channels env sr target_sr chs = Inr rs"
    "length rs = length chs" "list_all (\<lambda>r. length r = n) rs" by auto
  show ?case using r rs by simp
qed

lemma np_stack_ok:
  "xs \<noteq> [] \<Longrightarrow> list_all (\<lambda>r. length r = n) xs \<Longrightarrow> \<exists>a. np_stack xs = Inr a"
  by (cases xs) (auto simp: np_stack_def list_all_iff)

lemma load_audio_returns:
  assumes "decode_audio env path = Inr (decoded, native_sr)"
    and "wf_ndarray2 decoded" and "0 < shape0 decoded"
    and "\<forall>ch. length ch = shape1 decoded \<longrightarrow>
           (\<exists>r. librosa_resample env ch native_sr target_sr = Inr r \<and> length r = n)"
  shows "\<exists>audio. load_audio env path target_sr mono_flag = Inr (audio, target_sr)"
proof -
  define mixed where
    "mixed = (if mono_flag \<and> shape0 decoded > 1 then mean_axis0_keepdims decoded else decoded)"
  have rows_len: "\<forall>ch\<in>set (rows mixed). length ch = shape1 decoded"
    using assms(2) by (auto simp: mixed_def mean_axis0_keepdims_def wf_ndarray2_def list_all_iff)
  have ne: "rows mixed \<noteq> []"
    using assms(2,3) by (auto simp: mixed_def mean_axis0_keepdims_def wf_ndarray2_def)
  show ?thesis
  proof (cases "native_sr = target_sr")
    case True
    then show ?thesis using assms(1) by (simp add: load_audio_def Let_def)
  next
    case False
    have "\<forall>ch\<in>set (rows mixed). \<exists>r. librosa_resample env ch native_sr target_sr = Inr r \<and> length r = n"
      using rows_len assms(4) by blast
    from resample_channels_ok[OF this] obtain rs where
      rs: "resample_channels env native_sr target_sr (rows mixed) = Inr rs"
        "length rs = length (rows mixed)" "list_all (\<lambda>r. length r = n) rs" by blast
    have "rs \<noteq> []" using rs(2) ne by auto
    from np_stack_ok[OF this rs(3)] obtain a where "np_stack rs = Inr a" by blast
    then have "load_audio env path target_sr mono_flag = Inr (a, target_sr)"
      using assms(1) False rs(1) unfolding load_audio_def Let_def mixed_def by auto
    then show ?thesis by blast
  qed
qed

section \<open>The model cache\<close>

text \<open>Writing the stems changes nothing but the log of written files.\<close>

lemma write_stems_state:
  "write_stems env output_dir names stems stem_paths st = (res, st') \<Longrightarrow>
     MODEL_CACHE st' = MODEL_CACHE st \<and> store st' = store st
     \<and> next_ref st' = next_ref st \<and> load_calls st' = load_calls st"
proof (induction env output_dir names stems stem_paths st rule: write_stems.induct)
  case (1 env output_dir stems stem_paths st)
  then show ?case by simp
next
  case (2 env output_dir name names stem_paths st)
  then show ?case by simp
next
  case (3 env output_dir name names stem_audio stems stem_paths st)
  let ?p = "output_dir @ ''/'' @ name @ ''.wav''"
  show ?case
  proof (cases "sf_write_error env ?p")
    case None
    have "write_stems env output_dir names stems (stem_paths(name \<mapsto> ?p))
        (st\<lparr>written := written st @ [?p]\<rparr>) = (res, st')"
      using 3(2) None by (simp add: Let_def)
    from 3(1)[OF refl None this] show ?thesis by simp
  next
    case (Some e)
    then show ?thesis using 3(2) by (simp add: Let_def)
  qed
qed

lemma get_demucs_model_hit:
  "MODEL_CACHE st model_name = Some r \<Longrightarrow> get_demucs_model env model_name st = (Inr r, st)"
  by (simp add: get_demucs_model_def)

lemma get_demucs_model_miss:
  "MODEL_CACHE st model_name = None \<Longrightarrow> get_model env model_name = Inr obj \<Longrightarrow>
     get_demucs_model env model_name st =
       (Inr (next_ref st),
        st\<lparr>MODEL_CACHE := (MODEL_CACHE st)(model_name \<mapsto> next_ref st),
           store := (store st)(next_ref st := obj),
           next_ref := Suc (next_ref st),
           load_calls := load_calls st @ [model_name]\<rparr>)"
  by (simp add: get_demucs_model_def)

text \<open>
  What a call of \<open>separate_stems\<close> does to the cache, the store and the load log once
  \<open>_get_demucs_model\<close> has returned the model.
\<close>

lemma separate_stems_after_get:
  assumes "mkdir_error env output_dir = None"
    and "get_demucs_model env model_name st = (Inr r, st1)"
    and "separate_stems env aenv audio_path output_dir model_name dev st = (res, st')"
  shows "MODEL_CACHE st' = MODEL_CACHE st1 \<and> next_ref st' = next_ref st1
       \<and> load_calls st' = load_calls st1
       \<and> (to_device_error env dev = None \<longrightarrow>
            store st' = (store st1)(r := (store st1 r)\<lparr>device := dev, training := False\<rparr>))
       \<and> (to_device_error env dev \<noteq> None \<longrightarrow> store st' = store st1)"
proof (cases "to_device_error env dev")
  case (Some e)
  then have "st' = st1" using assms by (simp add: separate_stems_def)
  then show ?thesis using Some by simp
next
  case None
  define st2 where "st2 = st1\<lparr>store := (store st1)(r := (store st1 r)\<lparr>device := dev\<rparr>)\<rparr>"
  define st3 where "st3 = st2\<lparr>store := (store st2)(r := (store st2 r)\<lparr>training := False\<rparr>)\<rparr>"
  have s3: "MODEL_CACHE st3 = MODEL_CACHE st1" "next_ref st3 = next_ref st1"
    "load_calls st3 = load_calls st1"
    "store st3 = (store st1)(r := (store st1 r)\<lparr>device := dev, training := False\<rparr>)"
    by (simp_all add: st3_def st2_def)
  have run: "separate_stems env aenv audio_path output_dir model_name dev st =
      (case load_audio aenv audio_path (samplerate (store st3 r)) False of
         Inl e \<Rightarrow> (Inl e, st3)
       | Inr (audio, sr) \<Rightarrow>
           (case apply_model env (store st3 r) audio dev of
              Inl e \<Rightarrow> (Inl e, st3)
            | Inr stems \<Rightarrow> write_stems env output_dir (sources (store st3 r)) stems Map.empty st3))"
    using assms(1,2) None unfolding separate_stems_def Let_def st3_def st2_def by simp
  have "MODEL_CACHE st' = MODEL_CACHE st3 \<and> store st' = store st3
      \<and> next_ref st' = next_ref st3 \<and> load_calls st' = load_calls st3"
  proof (cases "load_audio aenv audio_path (samplerate (store st3 r)) False")
    case (Inl e)
    then show ?thesis using run assms(3) by simp
  next
    case (Inr ok)
    obtain audio sr where ok: "ok = (audio, sr)" by (cases ok)
    show ?thesis
    proof (cases "apply_model env (store st3 r) audio dev")
      case (Inl e)
      then show ?thesis using run assms(3) Inr ok by simp
    next
      case (Inr stems)
      then have "write_stems env output_dir (sources (store st3 r)) stems Map.empty st3 = (res, st')"
        using run assms(3) \<open>load_audio aenv audio_path (samplerate (store st3 r)) False = Inr ok\<close> ok
        by simp
      then show ?thesis by (rule write_stems_state)
    qed
  qed
  then show ?thesis using s3 None by simp
qed

lemma separate_stems_cached:
  assumes "MODEL_CACHE st model_name = Some r"
    and "mkdir_error env output_dir = None" and "to_device_error env dev = None"
    and "separate_stems env aenv audio_path output_dir model_name dev st = (res, st')"
  shows "MODEL_CACHE st' = MODEL_CACHE st \<and> next_ref st' = next_ref st
       \<and> load_calls st' = load_calls st
       \<and> store st' = (store st)(r := (store st r)\<lparr>device := dev, training := False\<rparr>)"
  using separate_stems_after_get[OF assms(2) get_demucs_model_hit[OF assms(1)] assms(4)] assms(3)
  by simp

lemma separate_stems_first_load:
  assumes "MODEL_CACHE st model_name = None" and "get_model env model_name = Inr obj"
    and "mkdir_error env output_dir = None"
    and "separate_stems env aenv audio_path output_dir model_name dev st = (res, st')"
  shows "MODEL_CACHE st' = (MODEL_CACHE st)(model_name \<mapsto> next_ref st)
       \<and> next_ref st' = Suc (next_ref st)
       \<and> load_calls st' = load_calls st @ [model_name]
       \<and> (to_device_error env dev = None \<longrightarrow>
            store st' = (store st)(next_ref st := obj\<lparr>device := dev, training := False\<rparr>))"
  using separate_stems_after_get[OF assms(3) get_demucs_model_miss[OF assms(1,2)] assms(4)]
  by simp

lemma separate_stems_load_calls_cached:
  assumes "MODEL_CACHE st model_name = Some r"
    and "separate_stems env aenv audio_path output_dir model_name dev st = (res, st')"
  shows "load_calls st' = load_calls st \<and> MODEL_CACHE st' = MODEL_CACHE st
       \<and> next_ref st' = next_ref st"
proof (cases "mkdir_error env output_dir")
  case None
  from separate_stems_after_get[OF None get_demucs_model_hit[OF assms(1)] assms(2)]
  show ?thesis by simp
next
  case (Some e)
  then have "st' = st" using assms(2) by (simp add: separate_stems_def)
  then show ?thesis by simp
qed

lemma after_cpu_call_state:
  "MODEL_CACHE after_cpu_call = [''htdemucs'' \<mapsto> 0]"
  "next_ref after_cpu_call = 1"
  "load_calls after_cpu_call = [''htdemucs'']"
  "store after_cpu_call 0 = htdemucs_obj\<lparr>device := ''cpu'', training := False\<rparr>"
proof -
  let ?st = "initial_state htdemucs_obj"
  have a: "MODEL_CACHE ?st ''htdemucs'' = None" by (simp add: initial_state_def)
  have b: "get_model demo_demucs_env ''htdemucs'' = Inr htdemucs_obj"
    by (simp add: demo_demucs_env_def)
  have c: "mkdir_error demo_demucs_env ''out'' = None" "to_device_error demo_demucs_env ''cpu'' = None"
    by (simp_all add: demo_demucs_env_def)
  have d: "separate_stems demo_demucs_env demo_audio_env ''song.wav'' ''out'' ''htdemucs'' ''cpu'' ?st
      = (fst (separate_stems demo_demucs_env demo_audio_env ''song.wav'' ''out'' ''htdemucs'' ''cpu'' ?st),
         after_cpu_call)"
    by (simp add: after_cpu_call_def)
  note r = separate_stems_first_load[OF a b c(1) d]
  show "MODEL_CACHE after_cpu_call = [''htdemucs'' \<mapsto> 0]" using r by (simp add: initial_state_def)
  show "next_ref after_cpu_call = 1" using r by (simp add: initial_state_def)
  show "load_calls after_cpu_call = [''htdemucs'']" using r by (simp add: initial_state_def)
  show "store after_cpu_call 0 = htdemucs_obj\<lparr>device := ''cpu'', training := False\<rparr>"
    using r c(2) by (simp add: initial_state_def)
qed

lemma after_cuda_call_state:
  "MODEL_CACHE after_cuda_call = [''htdemucs'' \<mapsto> 0]"
  "next_ref after_cuda_call = 1"
  "load_calls after_cuda_call = [''htdemucs'']"
  "store after_cuda_call 0 = htdemucs_obj\<lparr>device := ''cuda'', training := False\<rparr>"
proof -
  have a: "MODEL_CACHE after_cpu_call ''htdemucs'' = Some 0" by (simp add: after_cpu_call_state)
  have c: "mkdir_error demo_demucs_env ''out'' = None" "to_device_error demo_demucs_env ''cuda'' = None"
    by (simp_all add: demo_demucs_env_def)
  have d: "separate_stems demo_demucs_env demo_audio_env ''song.wav'' ''out'' ''htdemucs'' ''cuda'' after_cpu_call
      = (fst (separate_stems demo_demucs_env demo_audio_env ''song.wav'' ''out'' ''htdemucs'' ''cuda'' after_cpu_call),
         after_cuda_call)"
    by (simp add: after_cuda_call_def)
  note r = separate_stems_cached[OF a c d]
  show "MODEL_CACHE after_cuda_call = [''htdemucs'' \<mapsto> 0]" using r by (simp add: after_cpu_call_state)
  show "next_ref after_cuda_call = 1" using r by (simp add: after_cpu_call_state)
  show "load_calls after_cuda_call = [''htdemucs'']" using r by (simp add: after_cpu_call_state)
  show "store after_cuda_call 0 = htdemucs_obj\<lparr>device := ''cuda'', training := False\<rparr>"
    using r by (simp add: after_cpu_call_state)
qed

text \<open>Both requests of the concrete process return the paths of the four stems.\<close>

lemma demo_load_audio_stereo_flag:
  "load_audio demo_audio_env p 44100 False = Inr (\<lparr>shape0 = 1, shape1 = 2, rows = [[0, 0]]\<rparr>, 44100)"
  by (simp add: load_audio_def decode_audio_def demo_audio_env_def transpose2_def column_def)

lemma demo_write_stems:
  "fst (write_stems demo_demucs_env ''out'' [''drums'', ''bass'', ''other'', ''vocals'']
          [a, a, a, a] Map.empty st) = Inr demo_stem_paths"
  by (simp add: demo_demucs_env_def demo_stem_paths_def Let_def)

lemma cpu_call_returns:
  "fst (separate_stems demo_demucs_env demo_audio_env ''song.wav'' ''out'' ''htdemucs'' ''cpu''
          (initial_state htdemucs_obj)) = Inr demo_stem_paths"
proof -
  have g: "get_demucs_model demo_demucs_env ''htdemucs'' (initial_state htdemucs_obj) =
      (Inr 0, (initial_state htdemucs_obj)\<lparr>MODEL_CACHE := [''htdemucs'' \<mapsto> 0],
           store := (store (initial_state htdemucs_obj))(0 := htdemucs_obj),
           next_ref := 1, load_calls := [''htdemucs'']\<rparr>)"
    by (simp add: get_demucs_model_def initial_state_def demo_demucs_env_def)
  have e: "mkdir_error demo_demucs_env ''out'' = None" "to_device_error demo_demucs_env ''cpu'' = None"
    "\<And>m a d. apply_model demo_demucs_env m a d = Inr [a, a, a, a]"
    by (simp_all add: demo_demucs_env_def)
  show ?thesis
    unfolding separate_stems_def Let_def g e
    by (simp del: write_stems.simps add: htdemucs_obj_def demo_load_audio_stereo_flag e(3) demo_write_stems)
qed

lemma cuda_call_returns:
  "fst (separate_stems demo_demucs_env demo_audio_env ''song.wav'' ''out'' ''htdemucs'' ''cuda''
          after_cpu_call) = Inr demo_stem_paths"
proof -
  have g: "get_demucs_model demo_demucs_env ''htdemucs'' after_cpu_call = (Inr 0, after_cpu_call)"
    by (simp add: get_demucs_model_def after_cpu_call_state)
  have e: "mkdir_error demo_demucs_env ''out'' = None" "to_device_error demo_demucs_env ''cuda'' = None"
    "\<And>m a d. apply_model demo_demucs_env m a d = Inr [a, a, a, a]"
    by (simp_all add: demo_demucs_env_def)
  show ?thesis
    unfolding separate_stems_def Let_def g e
    by (simp del: write_stems.simps add: after_cpu_call_state htdemucs_obj_def demo_load_audio_stereo_flag e(3) demo_write_stems)
qed

text \<open>
  C2, as stated: cache entries are keyed by (model name, device), so that two requests
  with the same model name and different devices use distinct entries, each with its own
  model instance, and the device of a cached instance is fixed at first load. In the code
  the key is the model name alone: after a request for htdemucs on the CPU and one on
  CUDA the cache has the single entry htdemucs, one instance was created and loaded
  once, and \<open>model.to(device)\<close> moved that instance from the CPU to CUDA.
\<close>

theorem same_model_different_device_share_instance:
  "fst (separate_stems demo_demucs_env demo_audio_env ''song.wav'' ''out'' ''htdemucs'' ''cpu''
          (initial_state htdemucs_obj)) = Inr demo_stem_paths
   \<and> fst (separate_stems demo_demucs_env demo_audio_env ''song.wav'' ''out'' ''htdemucs'' ''cuda''
          after_cpu_call) = Inr demo_stem_paths
   \<and> MODEL_CACHE after_cpu_call ''htdemucs'' = Some 0
   \<and> device (store after_cpu_call 0) = ''cpu''
   \<and> MODEL_CACHE after_cuda_call ''htdemucs'' = Some 0
   \<and> dom (MODEL_CACHE after_cuda_call) = {''htdemucs''}
   \<and> next_ref after_cuda_call = 1
   \<and> load_calls after_cuda_call = [''htdemucs'']
   \<and> device (store after_cuda_call 0) = ''cuda''"
  by (simp add: after_cpu_call_state after_cuda_call_state cpu_call_returns cuda_call_returns)

text \<open>
  C2, amended. A cache entry is keyed by the model name alone. A request for a model name
  that is already cached, with any device, uses the cached instance: it adds no entry,
  creates no instance and loads nothing; and it binds that instance to the requested
  device, leaving every other instance as it was.
\<close>

theorem model_cache_keyed_by_name:
  assumes "MODEL_CACHE st model_name = Some r"
    and "mkdir_error env output_dir = None" and "to_device_error env dev = None"
    and "separate_stems env aenv audio_path output_dir model_name dev st = (res, st')"
  shows "MODEL_CACHE st' = MODEL_CACHE st \<and> next_ref st' = next_ref st
       \<and> load_calls st' = load_calls st
       \<and> device (store st' r) = dev
       \<and> (\<forall>r'. r' \<noteq> r \<longrightarrow> store st' r' = store st r')"
  using separate_stems_cached[OF assms] by simp

text \<open>The request on CUDA after the request on the CPU.\<close>

theorem model_cache_keyed_by_name_witness:
  "MODEL_CACHE after_cuda_call = MODEL_CACHE after_cpu_call
   \<and> next_ref after_cuda_call = next_ref after_cpu_call
   \<and> load_calls after_cuda_call = load_calls after_cpu_call
   \<and> device (store after_cuda_call 0) = ''cuda''"
proof -
  have a: "MODEL_CACHE after_cpu_call ''htdemucs'' = Some 0" by (simp add: after_cpu_call_state)
  have c: "mkdir_error demo_demucs_env ''out'' = None" "to_device_error demo_demucs_env ''cuda'' = None"
    by (simp_all add: demo_demucs_env_def)
  have d: "separate_stems demo_demucs_env demo_audio_env ''song.wav'' ''out'' ''htdemucs'' ''cuda'' after_cpu_call
      = (fst (separate_stems demo_demucs_env demo_audio_env ''song.wav'' ''out'' ''htdemucs'' ''cuda'' after_cpu_call),
         after_cuda_call)"
    by (simp add: after_cuda_call_def)
  from model_cache_keyed_by_name[OF a c d] show ?thesis by simp
qed

text \<open>
  C6. When a first call of \<open>separate_stems\<close> has loaded the model (the name was not
  cached, the directory was made and \<open>get_model\<close> returned), a second call for the same
  model name and device gets the cached instance from \<open>_get_demucs_model\<close> and calls
  \<open>get_model\<close> no more: over the two calls the load log grows by exactly one entry.
\<close>

theorem second_call_does_not_reload:
  assumes "MODEL_CACHE st model_name = None" and "get_model env model_name = Inr obj"
    and "mkdir_error env out1 = None"
    and "separate_stems env aenv path1 out1 model_name dev st = (res1, st1)"
    and "separate_stems env aenv path2 out2 model_name dev st1 = (res2, st2)"
  shows "load_calls st1 = load_calls st @ [model_name]
       \<and> get_demucs_model env model_name st1 = (Inr (next_ref st), st1)
       \<and> load_calls st2 = load_calls st @ [model_name]
       \<and> MODEL_CACHE st2 model_name = Some (next_ref st)
       \<and> next_ref st2 = Suc (next_ref st)"
proof -
  note f = separate_stems_first_load[OF assms(1,2,3,4)]
  have hit: "MODEL_CACHE st1 model_name = Some (next_ref st)" using f by simp
  note s = separate_stems_load_calls_cached[OF hit assms(5)]
  show ?thesis using f s hit get_demucs_model_hit[OF hit] by simp
qed

text \<open>Two requests on the CPU in a fresh process: one load.\<close>

theorem second_call_does_not_reload_witness:
  "load_calls after_cpu_call = [''htdemucs'']
   \<and> get_demucs_model demo_demucs_env ''htdemucs'' after_cpu_call = (Inr 0, after_cpu_call)
   \<and> load_calls after_second_cpu_call = [''htdemucs'']
   \<and> MODEL_CACHE after_second_cpu_call ''htdemucs'' = Some 0"
proof -
  let ?st = "initial_state htdemucs_obj"
  have a: "MODEL_CACHE ?st ''htdemucs'' = None" by (simp add: initial_state_def)
  have b: "get_model demo_demucs_env ''htdemucs'' = Inr htdemucs_obj"
    by (simp add: demo_demucs_env_def)
  have c: "mkdir_error demo_demucs_env ''out'' = None" by (simp add: demo_demucs_env_def)
  have d: "separate_stems demo_demucs_env demo_audio_env ''song.wav'' ''out'' ''htdemucs'' ''cpu'' ?st
      = (fst (separate_stems demo_demucs_env demo_audio_env ''song.wav'' ''out'' ''htdemucs'' ''cpu'' ?st),
         after_cpu_call)"
    by (simp add: after_cpu_call_def)
  have e: "separate_stems demo_demucs_env demo_audio_env ''song.wav'' ''out'' ''htdemucs'' ''cpu'' after_cpu_call
      = (fst (separate_stems demo_demucs_env demo_audio_env ''song.wav'' ''out'' ''htdemucs'' ''cpu'' after_cpu_call),
         after_second_cpu_call)"
    by (simp add: after_second_cpu_call_def)
  from second_call_does_not_reload[OF a b c d e] show ?thesis by (simp add: initial_state_def)
qed

section \<open>Loading audio: rate and channels\<close>

text \<open>
  What the decoding step produces has the channel count of the file: the transpose of
  soundfile's array, or librosa's array channel first.
\<close>

lemma decode_audio_channels:
  assumes "decode_audio env path = Inr (decoded, native_sr)" and "decoder_output_ok env path"
  shows "shape0 decoded = original_channels env path \<and> length (rows decoded) = shape0 decoded
       \<and> 0 < shape0 decoded"
proof (cases "sf_read env path")
  case (Inr ok)
  obtain a sr0 where ok: "ok = (a, sr0)" by (cases ok)
  have "decoded = transpose2 a" using assms(1) Inr ok by (simp add: decode_audio_def)
  then show ?thesis
    using assms(2) Inr ok by (simp add: transpose2_def original_channels_def decoder_output_ok_def)
next
  case (Inl e1)
  then obtain y sr0 where ll: "librosa_load env path = Inr (y, sr0)"
    and d: "decoded = channel_first y"
    using assms(1) by (auto simp: decode_audio_def split: if_splits sum.splits)
  show ?thesis
  proof (cases y)
    case (Arr1 v)
    then show ?thesis using Inl ll d by (simp add: channel_first_def original_channels_def)
  next
    case (Arr2 b)
    then show ?thesis
      using Inl ll d assms(2)
      by (simp add: channel_first_def original_channels_def decoder_output_ok_def)
  qed
qed

text \<open>
  C8. Provided the library decoders return what they document (soundfile an array with at
  least one channel; librosa, when its array is two-dimensional, one with as many rows as
  its shape says, at least one): whenever \<open>load_audio\<close> returns, the sample rate it
  returns is the target sample rate, and the buffer has one channel when mono was
  requested and otherwise the channel count of the file as the decoder that read it
  reports it.
\<close>

theorem load_audio_rate_and_channels:
  assumes "load_audio env path target_sr mono_flag = Inr (audio, sr)"
    and "decoder_output_ok env path"
  shows "sr = target_sr
       \<and> shape0 audio = (if mono_flag then 1 else original_channels env path)"
proof -
  from assms(1) obtain decoded native_sr where d: "decode_audio env path = Inr (decoded, native_sr)"
    by (auto simp: load_audio_def split: sum.splits)
  note c = decode_audio_channels[OF d assms(2)]
  from load_audio_channels_of_decoded[OF assms(1) d] c show ?thesis by simp
qed

text \<open>
  A stereo file at 22050 Hz: loaded at 44100 Hz with mono requested it has one channel,
  loaded at its own rate without mono it has two. A mono M4A file, read by the secondary
  decoder, has one.
\<close>

theorem load_audio_rate_and_channels_witness:
  "map_sum id (\<lambda>r. (shape0 (fst r), snd r)) (load_audio stereo_env ''song.wav'' 44100 True)
     = Inr (1, 44100)
   \<and> map_sum id (\<lambda>r. (shape0 (fst r), snd r)) (load_audio stereo_env ''song.wav'' 22050 False)
     = Inr (2, 22050)
   \<and> original_channels stereo_env ''song.wav'' = 2
   \<and> map_sum id (\<lambda>r. (shape0 (fst r), snd r)) (load_audio m4a_env ''song.m4a'' 44100 False)
     = Inr (1, 44100)
   \<and> original_channels m4a_env ''song.m4a'' = 1"
proof -
  have up2: "[0..<2] = [0, 1]" by (simp add: upt_rec)
  have d: "decode_audio stereo_env ''song.wav''
     = Inr (\<lparr>shape0 = 2, shape1 = 2, rows = [[0.5, 0.25], [-0.5, 0.75]]\<rparr>, 22050)"
    by (simp add: decode_audio_def stereo_env_def transpose2_def column_def up2)
  obtain a1 r1 where l1: "load_audio stereo_env ''song.wav'' 44100 True = Inr (a1, r1)"
    unfolding load_audio_def d
    by (simp add: mean_axis0_keepdims_def column_def up2 stereo_env_def np_stack_def)
  obtain a2 r2 where l2: "load_audio stereo_env ''song.wav'' 22050 False = Inr (a2, r2)"
    unfolding load_audio_def d by simp
  obtain a3 r3 where l3: "load_audio m4a_env ''song.m4a'' 44100 False = Inr (a3, r3)"
    by (simp add: load_audio_def decode_audio_def m4a_env_def channel_first_def)
  have ok: "decoder_output_ok stereo_env ''song.wav''" "decoder_output_ok m4a_env ''song.m4a''"
    by (simp_all add: decoder_output_ok_def stereo_env_def m4a_env_def)
  have oc: "original_channels stereo_env ''song.wav'' = 2" "original_channels m4a_env ''song.m4a'' = 1"
    by (simp_all add: original_channels_def stereo_env_def m4a_env_def)
  from load_audio_rate_and_channels[OF l1 ok(1)] load_audio_rate_and_channels[OF l2 ok(1)]
    load_audio_rate_and_channels[OF l3 ok(2)]
  show ?thesis using l1 l2 l3 oc by simp
qed

section \<open>Key estimation: the first greatest score\<close>

text \<open>The loop of \<open>_estimate_key\<close> builds its candidates in the order of the indices.\<close>

lemma key_scores_with_canonical:
  "key_scores_with ops cn = map (key_candidate_with ops cn) [0..<24]"
  unfolding key_scores_with_def upt_0_12 upt_0_24
  by (simp add: key_candidate_with_def key_score_at_def)

lemma key_candidate_with_label: "key_name (key_candidate_with ops cn k) = key_label_at k"
  by (simp add: key_name_def key_candidate_with_def key_label_at_def)

lemma key_candidate_with_score: "cand_score (key_candidate_with ops cn k) = key_score_at ops cn k"
  by (simp add: cand_score_def key_candidate_with_def)

text \<open>
  C4. Whatever the float operations return, for a chroma matrix of 12 rows and at least
  one frame \<open>_estimate_key\<close> returns the key of a candidate \<open>j\<close> whose score is
  greatest among the 24 scores, and every candidate before \<open>j\<close> in the canonical order
  has a strictly smaller score: among candidates of equal greatest score the first wins.
\<close>

theorem estimate_key_selects_first_maximum:
  assumes "length (rows chroma) = 12" and "mean_axis1_with ops chroma = Some chroma_mean"
  shows "\<exists>j<24.
           estimate_key_with ops chroma =
             Inr \<lparr>key = key_label_at j,
                  confidence =
                    key_conf_with ops (key_score_at ops (normalize_chroma_with ops chroma_mean) j)\<rparr>
         \<and> (\<forall>i<24. key_score_at ops (normalize_chroma_with ops chroma_mean) i
                     \<le> key_score_at ops (normalize_chroma_with ops chroma_mean) j)
         \<and> (\<forall>i<j. key_score_at ops (normalize_chroma_with ops chroma_mean) i
                     < key_score_at ops (normalize_chroma_with ops chroma_mean) j)"
proof -
  define cn where "cn = normalize_chroma_with ops chroma_mean"
  define c where "c = key_candidate_with ops cn"
  have sc: "key_scores_with ops cn = c 0 # map c [1..<24]"
    unfolding key_scores_with_canonical c_def by (simp add: upt_rec[of 0])
  have full: "c 0 # map c [1..<24] = map c [0..<24]" by (simp add: upt_rec[of 0])
  have "\<exists>j<24. scan_best cand_score (c 0) (map c [1..<24]) = map c [0..<24] ! j
      \<and> (\<forall>i<24. cand_score (map c [0..<24] ! i) \<le> cand_score (map c [0..<24] ! j))
      \<and> (\<forall>i<j. cand_score (map c [0..<24] ! i) < cand_score (map c [0..<24] ! j))"
    using scan_best_first_max[of "c 0" "map c [1..<24]" cand_score] unfolding full by simp
  then obtain j where j: "j < 24"
    "scan_best cand_score (c 0) (map c [1..<24]) = map c [0..<24] ! j"
    "\<forall>i<24. cand_score (map c [0..<24] ! i) \<le> cand_score (map c [0..<24] ! j)"
    "\<forall>i<j. cand_score (map c [0..<24] ! i) < cand_score (map c [0..<24] ! j)"
    by blast
  have w: "scan_best cand_score (c 0) (map c [1..<24]) = c j" using j(1,2) by simp
  have m: "\<forall>i<24. key_score_at ops cn i \<le> key_score_at ops cn j"
    using j(1,3) by (simp add: c_def key_candidate_with_score)
  have s: "\<forall>i<j. key_score_at ops cn i < key_score_at ops cn j"
    using j(1,4) by (simp add: c_def key_candidate_with_score)
  have "estimate_key_with ops chroma =
      Inr \<lparr>key = key_name (c j), confidence = key_conf_with ops (cand_score (c j))\<rparr>"
    using assms w by (simp add: estimate_key_with_def py_max_def sc cn_def[symmetric])
  then have "estimate_key_with ops chroma =
      Inr \<lparr>key = key_label_at j, confidence = key_conf_with ops (key_score_at ops cn j)\<rparr>"
    by (simp add: c_def key_candidate_with_label key_candidate_with_score)
  then show ?thesis using j(1) m s unfolding cn_def by blast
qed

text \<open>
  In exact arithmetic: with energy on G only, G major (index 14) has the one greatest score
  and is the key; on silence the 24 scores are equal and the key is C major, the first.
\<close>

lemma g_mean: "mean_axis1_with exact_ops g_chroma = Some g_frame"
  by (simp add: mean_axis1_with_def exact_ops_def g_chroma_def g_frame_def)

lemma g_norm: "linalg_norm g_frame = 1"
  by (simp add: linalg_norm_def g_frame_def)

lemma g_normalized:
  "normalize_chroma_with exact_ops g_frame = map (\<lambda>x. x / (1 + 1 / 10 ^ 9)) g_frame"
  by (simp add: normalize_chroma_with_def exact_ops_def g_norm)

lemma major_profile:
  "profile_major_with exact_ops =
     map (\<lambda>x. x / linalg_norm KRUMHANSL_MAJOR)
       [6.35, 2.23, 3.48, 2.33, 4.38, 4.09, 2.52, 5.19, 2.39, 3.66, 2.29, 2.88]"
  unfolding profile_major_with_def exact_ops_def by (simp add: KRUMHANSL_MAJOR_def)

lemma minor_profile:
  "profile_minor_with exact_ops =
     map (\<lambda>x. x / linalg_norm KRUMHANSL_MINOR)
       [6.33, 2.68, 3.52, 5.38, 2.60, 3.53, 2.54, 4.75, 3.98, 2.69, 3.34, 3.17]"
  unfolding profile_minor_with_def exact_ops_def by (simp add: KRUMHANSL_MINOR_def)

lemma norms:
  "0 < linalg_norm KRUMHANSL_MAJOR" "linalg_norm KRUMHANSL_MAJOR \<le> linalg_norm KRUMHANSL_MINOR"
  by (simp_all add: linalg_norm_def KRUMHANSL_MAJOR_def KRUMHANSL_MINOR_def)

lemma norms_minor: "0 < linalg_norm KRUMHANSL_MINOR"
  using norms by linarith

lemma g_score_strict_max:
  "list_all (\<lambda>k. k = 14 \<or>
       key_score_at exact_ops (map (\<lambda>x. x / (1 + 1 / 10 ^ 9)) g_frame) k
         < key_score_at exact_ops (map (\<lambda>x. x / (1 + 1 / 10 ^ 9)) g_frame) 14) [0..<24]"
  unfolding upt_0_24 key_score_at_def major_profile minor_profile
  using norms norms_minor
  by (simp add: exact_ops_def np_dot_def np_roll_def g_frame_def field_simps)


lemma silence_mean_with: "mean_axis1_with exact_ops silence_chroma = Some silence_frame"
  by (simp add: mean_axis1_with_def exact_ops_def silence_chroma_def silence_frame_def)

lemma silence_normalized_with: "normalize_chroma_with exact_ops silence_frame = silence_frame"
  by (simp add: normalize_chroma_with_def exact_ops_def silence_frame_def)

lemma silence_key_score_at: "key_score_at exact_ops silence_frame k = 0"
  by (simp add: key_score_at_def exact_ops_def np_dot_zero_left silence_frame_def)

theorem estimate_key_selects_first_maximum_witness:
  "map_sum id key (estimate_key_with exact_ops g_chroma) = Inr ''G major''
   \<and> map_sum id key (estimate_key_with exact_ops silence_chroma) = Inr ''C major''"
proof
  let ?cn = "map (\<lambda>x. x / (1 + 1 / 10 ^ 9)) g_frame"
  have r: "length (rows g_chroma) = 12" by (simp add: g_chroma_def)
  from estimate_key_selects_first_maximum[OF r g_mean]
  obtain j where j: "j < 24"
    "estimate_key_with exact_ops g_chroma =
       Inr \<lparr>key = key_label_at j,
            confidence = key_conf_with exact_ops (key_score_at exact_ops ?cn j)\<rparr>"
    "\<forall>i<24. key_score_at exact_ops ?cn i \<le> key_score_at exact_ops ?cn j"
    unfolding g_normalized by blast
  have "j = 14"
  proof (rule ccontr)
    assume "j \<noteq> 14"
    moreover have "j \<in> set [0..<24]" using j(1) by simp
    ultimately have "key_score_at exact_ops ?cn j < key_score_at exact_ops ?cn 14"
      using g_score_strict_max unfolding list_all_iff by blast
    moreover have "key_score_at exact_ops ?cn 14 \<le> key_score_at exact_ops ?cn j"
      using j(3) by simp
    ultimately show False by simp
  qed
  moreover have "key_label_at 14 = ''G major''"
    by (simp add: key_label_at_def KEY_NAMES_def)
  ultimately show "map_sum id key (estimate_key_with exact_ops g_chroma) = Inr ''G major''"
    using j(2) by simp
next
  have r: "length (rows silence_chroma) = 12" by (simp add: silence_chroma_def)
  from estimate_key_selects_first_maximum[OF r silence_mean_with]
  obtain j where j: "j < 24"
    "estimate_key_with exact_ops silence_chroma =
       Inr \<lparr>key = key_label_at j,
            confidence = key_conf_with exact_ops (key_score_at exact_ops silence_frame j)\<rparr>"
    "\<forall>i<j. key_score_at exact_ops silence_frame i < key_score_at exact_ops silence_frame j"
    unfolding silence_normalized_with by blast
  have "j = 0" using j(3) by (cases j) (auto simp: silence_key_score_at)
  moreover have "key_label_at 0 = ''C major''"
    by (simp add: key_label_at_def KEY_NAMES_def)
  ultimately show "map_sum id key (estimate_key_with exact_ops silence_chroma) = Inr ''C major''"
    using j(2) by simp
qed

section \<open>Chord detection: the label of every frame\<close>

text \<open>The loop over the roots is the scan over the candidates in the order of the indices.\<close>

lemma chord_scan_with_as_scan_best:
  "chord_scan_with ops f roots best =
     scan_best snd best
       (concat (map (\<lambda>r. [(chord_names ! r, fl_dot ops f (np_roll major_template r)),
                            (chord_names ! r @ ''m'', fl_dot ops f (np_roll minor_template r))]) roots))"
  by (induction roots arbitrary: best) (simp_all add: Let_def)

lemma chord_candidates_with_canonical:
  "concat (map (\<lambda>r. [(chord_names ! r, fl_dot ops f (np_roll major_template r)),
                        (chord_names ! r @ ''m'', fl_dot ops f (np_roll minor_template r))]) [0..<12])
   = map (\<lambda>k. (chord_label_at k, chord_score_at ops f k)) [0..<24]"
  unfolding upt_0_12 upt_0_24 by (simp add: chord_label_at_def chord_score_at_def)

lemma chord_scan_with_first_maximum:
  "(chord_scan_with ops f [0..<12] (''N'', 0) = (''N'', 0) \<and> (\<forall>k<24. chord_score_at ops f k \<le> 0))
   \<or> (\<exists>j<24. chord_scan_with ops f [0..<12] (''N'', 0) = (chord_label_at j, chord_score_at ops f j)
          \<and> 0 < chord_score_at ops f j
          \<and> (\<forall>i<24. chord_score_at ops f i \<le> chord_score_at ops f j)
          \<and> (\<forall>i<j. chord_score_at ops f i < chord_score_at ops f j))"
proof -
  let ?b = "(''N'', 0::real)"
  define c where "c = (\<lambda>k. (chord_label_at k, chord_score_at ops f k))"
  let ?xs = "map c [0..<24]"
  have sc: "snd (c k) = chord_score_at ops f k" for k by (simp add: c_def)
  have run: "chord_scan_with ops f [0..<12] ?b = scan_best snd ?b ?xs"
    unfolding chord_scan_with_as_scan_best chord_candidates_with_canonical c_def ..
  have "\<exists>j<25. scan_best snd ?b ?xs = (?b # ?xs) ! j
      \<and> (\<forall>i<25. snd ((?b # ?xs) ! i) \<le> snd ((?b # ?xs) ! j))
      \<and> (\<forall>i<j. snd ((?b # ?xs) ! i) < snd ((?b # ?xs) ! j))"
    using scan_best_first_max[of ?b ?xs snd] by simp
  then obtain j where j: "j < 25" "scan_best snd ?b ?xs = (?b # ?xs) ! j"
    "\<forall>i<25. snd ((?b # ?xs) ! i) \<le> snd ((?b # ?xs) ! j)"
    "\<forall>i<j. snd ((?b # ?xs) ! i) < snd ((?b # ?xs) ! j)" by blast
  show ?thesis
  proof (cases j)
    case 0
    have "chord_score_at ops f k \<le> 0" if "k < 24" for k
      using j(3)[rule_format, of "Suc k"] that 0 by (simp add: sc)
    then show ?thesis using j(2) 0 run by simp
  next
    case (Suc j')
    have j': "j' < 24" using j(1) Suc by simp
    have w: "chord_scan_with ops f [0..<12] ?b = c j'" using run j(2) Suc j' by simp
    have pos: "0 < chord_score_at ops f j'" using j(4)[rule_format, of 0] Suc j' by (simp add: sc)
    have mx: "chord_score_at ops f i \<le> chord_score_at ops f j'" if "i < 24" for i
      using j(3)[rule_format, of "Suc i"] that Suc j' by (simp add: sc)
    have st: "chord_score_at ops f i < chord_score_at ops f j'" if "i < j'" for i
      using j(4)[rule_format, of "Suc i"] that Suc j' by (simp add: sc)
    show ?thesis using j' w pos mx st unfolding c_def by blast
  qed
qed

lemma frame_segment_with_label:
  "(if \<forall>k<24. chord_score_at ops f k \<le> 0
    then chord (frame_segment_with ops t f) = ''N''
    else (\<exists>j<24. chord (frame_segment_with ops t f) = chord_label_at j
            \<and> (\<forall>i<24. chord_score_at ops f i \<le> chord_score_at ops f j)
            \<and> (\<forall>i<j. chord_score_at ops f i < chord_score_at ops f j)))"
proof (cases "\<forall>k<24. chord_score_at ops f k \<le> 0")
  case True
  have "chord_scan_with ops f [0..<12] (''N'', 0) = (''N'', 0)"
    using chord_scan_with_first_maximum[of ops f] True by (auto simp: not_less[symmetric])
  then show ?thesis using True by (simp add: frame_segment_with_def)
next
  case False
  then obtain j where "j < 24"
    "chord_scan_with ops f [0..<12] (''N'', 0) = (chord_label_at j, chord_score_at ops f j)"
    "\<forall>i<24. chord_score_at ops f i \<le> chord_score_at ops f j"
    "\<forall>i<j. chord_score_at ops f i < chord_score_at ops f j"
    using chord_scan_with_first_maximum[of ops f] by blast
  then show ?thesis using False by (auto simp: frame_segment_with_def Let_def)
qed

lemma chords_of_chroma_with_runs:
  assumes "chords_of_chroma_with ops chroma frame_times = Inr merged"
  shows "merged = map hd (label_runs (frame_segments_with ops chroma frame_times))"
proof (cases "shape1 chroma = 0")
  case True
  then show ?thesis using assms by (simp add: chords_of_chroma_with_def frame_segments_with_def)
next
  case False
  then show ?thesis using assms
    by (auto simp: chords_of_chroma_with_def merge_loop_empty split: if_splits)
qed

text \<open>
  C5. Whatever the float operations return, whenever \<open>detect_chords\<close> returns, its
  result is merged from one segment per frame of the chroma matrix it computed, and for
  every frame \<open>i\<close>: when none of the 24 scores of the frame is strictly greater than 0
  the label is \<open>N\<close>; otherwise it is the label of a candidate \<open>j\<close> whose score is
  greatest among the 24, and every candidate before \<open>j\<close> in the canonical order has a
  strictly smaller score.
\<close>

theorem detect_chords_frame_label:
  assumes "detect_chords_with ops env cenv audio_path target_sr = Inr merged"
  shows "\<exists>audio sr mono_ch others chroma segs.
           load_audio env audio_path target_sr True = Inr (audio, sr)
         \<and> rows audio = mono_ch # others
         \<and> chroma_cqt cenv mono_ch sr 2048 = Inr chroma
         \<and> merged = map hd (label_runs segs)
         \<and> length segs = shape1 chroma
         \<and> (\<forall>i<shape1 chroma.
               seg_time (segs ! i) = frames_to_time cenv (shape1 chroma) sr 2048 ! i
             \<and> (if \<forall>k<24. chord_score_at ops (map (\<lambda>r. r ! i) (rows chroma)) k \<le> 0
                 then chord (segs ! i) = ''N''
                 else (\<exists>j<24. chord (segs ! i) = chord_label_at j
                        \<and> (\<forall>k<24. chord_score_at ops (map (\<lambda>r. r ! i) (rows chroma)) k
                                     \<le> chord_score_at ops (map (\<lambda>r. r ! i) (rows chroma)) j)
                        \<and> (\<forall>k<j. chord_score_at ops (map (\<lambda>r. r ! i) (rows chroma)) k
                                    < chord_score_at ops (map (\<lambda>r. r ! i) (rows chroma)) j))))"
proof -
  from assms obtain audio sr where la: "load_audio env audio_path target_sr True = Inr (audio, sr)"
    by (auto simp: detect_chords_with_def split: sum.splits)
  from assms la obtain mono_ch others where rw: "rows audio = mono_ch # others"
    by (auto simp: detect_chords_with_def split: list.splits)
  from assms la rw obtain chroma where ch: "chroma_cqt cenv mono_ch sr 2048 = Inr chroma"
    by (auto simp: detect_chords_with_def split: sum.splits)
  define ft where "ft = frames_to_time cenv (shape1 chroma) sr 2048"
  define segs where "segs = frame_segments_with ops chroma ft"
  have "chords_of_chroma_with ops chroma ft = Inr merged"
    using assms la rw ch by (simp add: detect_chords_with_def ft_def)
  then have m: "merged = map hd (label_runs segs)"
    unfolding segs_def by (rule chords_of_chroma_with_runs)
  have len: "length segs = shape1 chroma" by (simp add: segs_def frame_segments_with_def)
  have nth: "segs ! i = frame_segment_with ops (ft ! i) (map (\<lambda>r. r ! i) (rows chroma))"
    if "i < shape1 chroma" for i
    using that by (simp add: segs_def frame_segments_with_def column_def)
  have per: "seg_time (segs ! i) = ft ! i
      \<and> (if \<forall>k<24. chord_score_at ops (map (\<lambda>r. r ! i) (rows chroma)) k \<le> 0
          then chord (segs ! i) = ''N''
          else (\<exists>j<24. chord (segs ! i) = chord_label_at j
                 \<and> (\<forall>k<24. chord_score_at ops (map (\<lambda>r. r ! i) (rows chroma)) k
                              \<le> chord_score_at ops (map (\<lambda>r. r ! i) (rows chroma)) j)
                 \<and> (\<forall>k<j. chord_score_at ops (map (\<lambda>r. r ! i) (rows chroma)) k
                             < chord_score_at ops (map (\<lambda>r. r ! i) (rows chroma)) j)))"
    if "i < shape1 chroma" for i
    unfolding nth[OF that]
    using frame_segment_with_label[of ops "map (\<lambda>r. r ! i) (rows chroma)" "ft ! i"]
    by (simp add: frame_segment_with_def Let_def)
  show ?thesis
    using la rw ch m len per unfolding ft_def by blast
qed

text \<open>With exact arithmetic the functions over the float operations are those above.\<close>

lemma chord_scan_with_exact: "chord_scan_with exact_ops f roots best = chord_scan f roots best"
  by (induction roots arbitrary: best) (simp_all add: Let_def exact_ops_def)

lemma frame_segment_with_exact: "frame_segment_with exact_ops t f = frame_segment t f"
  by (simp add: frame_segment_with_def frame_segment_def chord_scan_with_exact)
    (simp add: exact_ops_def)

lemma detect_chords_with_exact:
  "detect_chords_with exact_ops env cenv audio_path target_sr
     = detect_chords env cenv audio_path target_sr"
proof -
  have fs: "frame_segments_with exact_ops chroma ft = frame_segments chroma ft" for chroma ft
    by (simp add: frame_segments_with_def frame_segments_def frame_segment_with_exact)
  have cc: "chords_of_chroma_with exact_ops chroma ft = chords_of_chroma chroma ft" for chroma ft
    by (simp add: chords_of_chroma_with_def chords_of_chroma_def fs)
  show ?thesis unfolding detect_chords_with_def detect_chords_def cc ..
qed

lemma estimate_key_with_exact:
  assumes "list_all (\<lambda>r. length r = shape1 chroma) (rows chroma)"
  shows "estimate_key_with exact_ops chroma = estimate_key chroma"
proof -
  have pm: "profile_major_with exact_ops = profile_major" "profile_minor_with exact_ops = profile_minor"
    by (simp_all add: profile_major_with_def profile_minor_with_def profile_major_def
        profile_minor_def exact_ops_def)
  have ks: "key_scores_with exact_ops cn = key_scores cn" for cn
    by (simp add: key_scores_with_def key_scores_def pm) (simp add: exact_ops_def)
  have nc: "normalize_chroma_with exact_ops cm = normalize_chroma cm" for cm
    by (simp add: normalize_chroma_with_def normalize_chroma_def exact_ops_def)
  have kc: "key_conf_with exact_ops b = key_conf b" for b
    by (simp add: key_conf_with_def key_conf_def exact_ops_def)
  have "map (fl_mean exact_ops) (rows chroma)
      = map (\<lambda>r. sum_list r / real (shape1 chroma)) (rows chroma)"
    using assms by (auto simp: exact_ops_def list_all_iff)
  then have ma: "mean_axis1_with exact_ops chroma = mean_axis1 chroma"
    by (simp add: mean_axis1_with_def mean_axis1_def)
  show ?thesis
    unfolding estimate_key_with_def estimate_key_def ma ks nc kc ..
qed

lemma chord_score_at_exact: "chord_score_at exact_ops f k = snd (chord_candidate_at f k)"
  by (simp add: chord_score_at_def chord_candidate_at_def exact_ops_def)

lemma frame_segment_fifth:
  "frame_segment t fifth_frame = \<lparr>seg_time = t, chord = ''C'', seg_confidence = 2 / 3\<rparr>"
  by (simp add: frame_segment_def chord_scan_candidates fifth_candidates)

lemma c_major_scores:
  "chord_candidate_at c_major_frame 0 = (''C'', 3)"
  "k < 24 \<Longrightarrow> snd (chord_candidate_at c_major_frame k) \<le> 3"
proof -
  let ?cs = "map (chord_candidate_at c_major_frame) [0..<24]"
  have "?cs ! 0 = (''C'', 3)" unfolding c_major_candidates by simp
  then show "chord_candidate_at c_major_frame 0 = (''C'', 3)" by simp
  have "list_all (\<lambda>c. snd c \<le> 3) ?cs" unfolding c_major_candidates by simp
  then have "\<forall>k<24. snd (?cs ! k) \<le> 3" by (simp add: list_all_length)
  then show "snd (chord_candidate_at c_major_frame k) \<le> 3" if "k < 24" using that by simp
qed

lemma upt_0_3: "[0..<3] = [0, 1, 2]"
  by (simp add: upt_rec)

lemma tie_columns:
  "map (\<lambda>r. r ! 0) (rows tie_chroma) = silence_frame"
  "map (\<lambda>r. r ! Suc 0) (rows tie_chroma) = fifth_frame"
  "map (\<lambda>r. r ! 2) (rows tie_chroma) = c_major_frame"
  by (simp_all add: tie_chroma_def silence_frame_def fifth_frame_def c_major_frame_def)

lemma tie_detect_chords:
  "detect_chords_with exact_ops demo_audio_env tie_chroma_env ''song.wav'' 44100 = Inr tie_chords"
proof -
  have sh: "shape1 tie_chroma = 3" "length (rows tie_chroma) = 12" by (simp_all add: tie_chroma_def)
  have ts: "frames_to_time tie_chroma_env 3 44100 2048 = [0, 2048 / 44100, 4096 / 44100]"
    by (simp add: tie_chroma_env_def upt_0_3)
  have fs: "frame_segments_with exact_ops tie_chroma [0, 2048 / 44100, 4096 / 44100] =
      [\<lparr>seg_time = 0, chord = ''N'', seg_confidence = 0\<rparr>,
       \<lparr>seg_time = 2048 / 44100, chord = ''C'', seg_confidence = 2 / 3\<rparr>,
       \<lparr>seg_time = 4096 / 44100, chord = ''C'', seg_confidence = 1\<rparr>]"
    unfolding frame_segments_with_def sh upt_0_3 frame_segment_with_exact column_def
    by (simp add: tie_columns frame_segment_silence frame_segment_fifth frame_segment_c_major)
  have "chords_of_chroma_with exact_ops tie_chroma (frames_to_time tie_chroma_env 3 44100 2048)
      = Inr tie_chords"
    unfolding chords_of_chroma_with_def sh ts fs by (simp add: tie_chords_def)
  then show ?thesis
    by (simp add: detect_chords_with_def demo_load_audio) (simp add: tie_chroma_env_def sh)
qed

text \<open>
  A run in exact arithmetic, on three frames: silence is labelled N; with energy on C and
  G only, C major and C minor tie at the greatest score and the label is C; the C major
  triad is labelled C.
\<close>

lemma first_candidate_wins:
  fixes S :: "nat \<Rightarrow> real"
  assumes "\<exists>j<24. L = lab j \<and> (\<forall>k<24. S k \<le> S j) \<and> (\<forall>k<j. S k < S j)"
    and "\<forall>k<24. S k \<le> S 0"
  shows "L = lab 0"
proof -
  from assms(1) obtain j where j: "j < 24" "L = lab j" "\<forall>k<j. S k < S j" by blast
  have "j = 0"
  proof (rule ccontr)
    assume "j \<noteq> 0"
    then have "S 0 < S j" using j(3) by simp
    moreover have "S j \<le> S 0" using assms(2) j(1) by simp
    ultimately show False by simp
  qed
  then show ?thesis using j(2) by simp
qed

theorem detect_chords_frame_label_witness:
  "detect_chords_with exact_ops demo_audio_env tie_chroma_env ''song.wav'' 44100 = Inr tie_chords
   \<and> (\<exists>segs. tie_chords = map hd (label_runs segs) \<and> map chord segs = [''N'', ''C'', ''C''])"
proof -
  from detect_chords_frame_label[OF tie_detect_chords]
  obtain audio sr mono_ch others chroma segs where
    ch: "chroma_cqt tie_chroma_env mono_ch sr 2048 = Inr chroma"
    and m: "tie_chords = map hd (label_runs segs)"
    and len: "length segs = shape1 chroma"
    and per: "\<forall>i<shape1 chroma.
        seg_time (segs ! i) = frames_to_time tie_chroma_env (shape1 chroma) sr 2048 ! i
      \<and> (if \<forall>k<24. chord_score_at exact_ops (map (\<lambda>r. r ! i) (rows chroma)) k \<le> 0
          then chord (segs ! i) = ''N''
          else (\<exists>j<24. chord (segs ! i) = chord_label_at j
                 \<and> (\<forall>k<24. chord_score_at exact_ops (map (\<lambda>r. r ! i) (rows chroma)) k
                              \<le> chord_score_at exact_ops (map (\<lambda>r. r ! i) (rows chroma)) j)
                 \<and> (\<forall>k<j. chord_score_at exact_ops (map (\<lambda>r. r ! i) (rows chroma)) k
                             < chord_score_at exact_ops (map (\<lambda>r. r ! i) (rows chroma)) j)))"
    by blast
  have c: "chroma = tie_chroma" using ch by (simp add: tie_chroma_env_def)
  have sh: "shape1 chroma = 3" using c by (simp add: tie_chroma_def)
  have l3: "length segs = 3" using len sh by simp
  have lt: "0 < shape1 chroma" "Suc 0 < shape1 chroma" "2 < shape1 chroma" using sh by simp_all
  note q0 = per[rule_format, OF lt(1), unfolded c tie_columns]
  note q1 = per[rule_format, OF lt(2), unfolded c tie_columns]
  note q2 = per[rule_format, OF lt(3), unfolded c tie_columns]
  have z: "\<forall>k<24. chord_score_at exact_ops silence_frame k \<le> 0"
    by (simp add: chord_score_at_exact silence_chord_score)
  have p0: "chord (segs ! 0) = ''N''" using q0 z by simp
  have lab0: "chord_label_at 0 = ''C''" by (simp add: chord_label_at_def chord_names_def)
  have nz1: "\<not> (\<forall>k<24. chord_score_at exact_ops fifth_frame k \<le> 0)"
  proof
    assume "\<forall>k<24. chord_score_at exact_ops fifth_frame k \<le> 0"
    then have "chord_score_at exact_ops fifth_frame 0 \<le> 0" by simp
    then show False by (simp add: chord_score_at_exact fifth_scores(1))
  qed
  have e1: "\<exists>j<24. chord (segs ! Suc 0) = chord_label_at j
       \<and> (\<forall>k<24. chord_score_at exact_ops fifth_frame k \<le> chord_score_at exact_ops fifth_frame j)
       \<and> (\<forall>k<j. chord_score_at exact_ops fifth_frame k < chord_score_at exact_ops fifth_frame j)"
    using q1 nz1 by presburger
  have m1: "\<forall>k<24. chord_score_at exact_ops fifth_frame k \<le> chord_score_at exact_ops fifth_frame 0"
    using fifth_scores(2) by (simp add: chord_score_at_exact fifth_scores(1))
  have p1: "chord (segs ! Suc 0) = chord_label_at 0"
    using first_candidate_wins[OF e1 m1] .
  have nz2: "\<not> (\<forall>k<24. chord_score_at exact_ops c_major_frame k \<le> 0)"
  proof
    assume "\<forall>k<24. chord_score_at exact_ops c_major_frame k \<le> 0"
    then have "chord_score_at exact_ops c_major_frame 0 \<le> 0" by simp
    then show False by (simp add: chord_score_at_exact c_major_scores(1))
  qed
  have e2: "\<exists>j<24. chord (segs ! 2) = chord_label_at j
       \<and> (\<forall>k<24. chord_score_at exact_ops c_major_frame k \<le> chord_score_at exact_ops c_major_frame j)
       \<and> (\<forall>k<j. chord_score_at exact_ops c_major_frame k < chord_score_at exact_ops c_major_frame j)"
    using q2 nz2 by presburger
  have m2: "\<forall>k<24. chord_score_at exact_ops c_major_frame k \<le> chord_score_at exact_ops c_major_frame 0"
    using c_major_scores(2) by (simp add: chord_score_at_exact c_major_scores(1))
  have p2: "chord (segs ! 2) = chord_label_at 0"
    using first_candidate_wins[OF e2 m2] .
  obtain s0 s1 s2 where abc: "segs = [s0, s1, s2]"
    using l3 by (auto simp: length_Suc_conv numeral_3_eq_3)
  have "chord s0 = ''N''" "chord s1 = ''C''" "chord s2 = ''C''"
    using p0 p1 p2 lab0 unfolding abc by simp_all
  then have lbl: "map chord segs = [''N'', ''C'', ''C'']" unfolding abc by simp
  show ?thesis
  proof (intro conjI exI[of _ segs])
    show "detect_chords_with exact_ops demo_audio_env tie_chroma_env ''song.wav'' 44100 = Inr tie_chords"
      by (rule tie_detect_chords)
    show "tie_chords = map hd (label_runs segs)" by (rule m)
    show "map chord segs = [''N'', ''C'', ''C'']" by (rule lbl)
  qed
qed

end
